theory Spec2Isabelle
  imports Main
begin

section \<open>Source resolution and loading (zenml/utils/source\_utils.py)\<close>

text \<open>
  The module turns live Python objects into portable source descriptors (\<open>resolve\<close>) and
  descriptors back into objects (\<open>load\<close>). Its functions read and write process-wide state
  (\<open>sys.modules\<close>, \<open>sys.path\<close>, the custom source root, the code repository cache) and
  call collaborators outside the file (the file system, the ZenML client, the installed
  distributions, the import system). The state is a record that every function takes and
  returns; the collaborators are the fields of a second record, \<open>world\<close>, that no function
  changes. Exceptions are values of \<open>py_error\<close>, returned as \<open>Inl\<close>.
\<close>

subsection \<open>Strings and POSIX paths\<close>

text \<open>\<open>str.split(sep)\<close> for a one-character separator: never empty, keeps empty fields.\<close>

fun split_on :: "char \<Rightarrow> string \<Rightarrow> string list" where
  "split_on d [] = [[]]"
| "split_on d (c # cs) =
     (if c = d then [] # split_on d cs
      else (case split_on d cs of [] \<Rightarrow> [[c]] | x # xs \<Rightarrow> (c # x) # xs))"

text \<open>\<open>sep.join(xs)\<close>.\<close>

fun join_with :: "string \<Rightarrow> string list \<Rightarrow> string" where
  "join_with sep [] = []"
| "join_with sep [x] = x"
| "join_with sep (x # y # ys) = x @ sep @ join_with sep (y # ys)"

definition startswith :: "string \<Rightarrow> string \<Rightarrow> bool" where
  "startswith s p = (take (length p) s = p)"

text \<open>\<open>s.replace(a, b)\<close> for single characters.\<close>

definition replace_char :: "char \<Rightarrow> char \<Rightarrow> string \<Rightarrow> string" where
  "replace_char a b s = map (\<lambda>c. if c = a then b else c) s"

text \<open>\<open>s.split(".", maxsplit=1)[0]\<close>: the text before the first dot.\<close>

definition top_level_name :: "string \<Rightarrow> string" where
  "top_level_name s = takeWhile (\<lambda>c. c \<noteq> CHR ''.'') s"

definition isabs :: "string \<Rightarrow> bool" where
  "isabs p = startswith p ''/''"

text \<open>\<open>posixpath.join(a, b)\<close>.\<close>

definition path_join :: "string \<Rightarrow> string \<Rightarrow> string" where
  "path_join a b =
     (if isabs b then b
      else if a = [] \<or> last a = CHR ''/'' then a @ b
      else a @ ''/'' @ b)"

text \<open>
  One round of the loop of \<open>posixpath.normpath\<close>: empty and \<open>.\<close> components are dropped,
  \<open>..\<close> removes the component before it, except at the start of a relative path or after
  another \<open>..\<close>; at the root it is dropped.
\<close>

definition norm_step :: "nat \<Rightarrow> string list \<Rightarrow> string \<Rightarrow> string list" where
  "norm_step initial_slashes new_comps c =
     (if c = [] \<or> c = ''.'' then new_comps
      else if c \<noteq> ''..'' \<or> (initial_slashes = 0 \<and> new_comps = [])
              \<or> (new_comps \<noteq> [] \<and> last new_comps = ''..'')
        then new_comps @ [c]
      else if new_comps \<noteq> [] then butlast new_comps
      else new_comps)"

definition normpath :: "string \<Rightarrow> string" where
  "normpath path =
     (if path = [] then ''.''
      else
        let initial_slashes =
              (if startswith path ''/''
               then (if startswith path ''//'' \<and> \<not> startswith path ''///'' then 2 else 1)
               else (0::nat));
            comps = foldl (norm_step initial_slashes) [] (split_on CHR ''/'' path);
            p = replicate initial_slashes CHR ''/'' @ join_with ''/'' comps
        in if p = [] then ''.'' else p)"

text \<open>\<open>os.path.abspath\<close>, with the working directory passed in.\<close>

definition abspath_in :: "string \<Rightarrow> string \<Rightarrow> string" where
  "abspath_in wd path = normpath (if isabs path then path else path_join wd path)"

text \<open>The non-empty components of a path: \<open>[x for x in p.split(sep) if x]\<close>.\<close>

definition components :: "string \<Rightarrow> string list" where
  "components p = filter (\<lambda>x. x \<noteq> []) (split_on CHR ''/'' p)"

fun commonprefix :: "'a list \<Rightarrow> 'a list \<Rightarrow> 'a list" where
  "commonprefix (x # xs) (y # ys) = (if x = y then x # commonprefix xs ys else [])"
| "commonprefix _ _ = []"

text \<open>
  \<open>posixpath.relpath(path, start)\<close> on two absolute, normalised paths: one \<open>..\<close> for each
  component of \<open>start\<close> past the common prefix, then the rest of \<open>path\<close>.
\<close>

definition relpath :: "string \<Rightarrow> string \<Rightarrow> string" where
  "relpath path start =
     (let start_list = components start;
          path_list = components path;
          i = length (commonprefix start_list path_list);
          rel_list = replicate (length start_list - i) ''..'' @ drop i path_list
      in if rel_list = [] then ''.'' else join_with ''/'' rel_list)"

text \<open>
  \<open>posixpath.splitext\<close>: the extension starts at the last dot of the last component,
  unless only dots stand before it in that component.
\<close>

definition splitext :: "string \<Rightarrow> string \<times> string" where
  "splitext p =
     (let base = last (split_on CHR ''/'' p);
          ext_rev = takeWhile (\<lambda>c. c \<noteq> CHR ''.'') (rev base)
      in if length ext_rev = length base then (p, [])
         else
           let n = Suc (length ext_rev);
               stem = take (length base - n) base
           in if \<forall>c \<in> set stem. c = CHR ''.'' then (p, [])
              else (take (length p - n) p, drop (length p - n) p))"

text \<open>
  A \<open>pathlib\<close> path: its root and its parts after the root. The root is empty for a
  relative path, \<open>//\<close> for a path with exactly two leading slashes and \<open>/\<close> for every
  other absolute path. Parsing drops empty and \<open>.\<close> components and keeps \<open>..\<close>.
\<close>

type_synonym pure_path = "string \<times> string list"

definition path_root :: "string \<Rightarrow> string" where
  "path_root p =
     (if startswith p ''//'' \<and> \<not> startswith p ''///'' then ''//''
      else if startswith p ''/'' then ''/''
      else [])"

definition PurePath :: "string \<Rightarrow> pure_path" where
  "PurePath p = (path_root p, filter (\<lambda>c. c \<noteq> [] \<and> c \<noteq> ''.'') (split_on CHR ''/'' p))"

text \<open>\<open>path.parents\<close>: every proper ancestor, nearest first.\<close>

definition parents :: "pure_path \<Rightarrow> pure_path list" where
  "parents P = map (\<lambda>k. (fst P, take k (snd P))) (rev [0..<length (snd P)])"

text \<open>\<open>str(path)\<close> and \<open>path.as_posix()\<close>.\<close>

definition as_posix :: "pure_path \<Rightarrow> string" where
  "as_posix P =
     (if fst P \<noteq> [] then fst P @ join_with ''/'' (snd P)
      else if snd P = [] then ''.'' else join_with ''/'' (snd P))"

subsection \<open>Exceptions\<close>

text \<open>The exceptions the file raises or lets through; a \<open>RuntimeError\<close> carries its cause.\<close>

datatype rt_reason =
    NotTopLevel | MainModuleNotFound | MainModuleHasNoFile
  | NotLoadedFromFile | OutsideSourceRoot | NotPythonFile

datatype py_error =
    RuntimeError rt_reason | KeyError | ValueError | AttributeError | TypeError
  | ValidationError | ModuleNotFoundError | ImportFailed

text \<open>
  \<open>PurePath(p).relative_to(other)\<close>: the parts of \<open>p\<close> after those of \<open>other\<close>, a
  \<open>ValueError\<close> when \<open>other\<close> is not an ancestor of \<open>p\<close> (or \<open>p\<close> itself).
\<close>

definition relative_to :: "pure_path \<Rightarrow> pure_path \<Rightarrow> py_error + pure_path" where
  "relative_to P other =
     (if fst P = fst other \<and> take (length (snd other)) (snd P) = snd other
      then Inr ([], drop (length (snd other)) (snd P))
      else Inl ValueError)"

text \<open>Truth value of an \<open>Optional[str]\<close>: \<open>None\<close> and the empty string are false.\<close>

definition truthy :: "string option \<Rightarrow> bool" where
  "truthy x = (case x of None \<Rightarrow> False | Some v \<Rightarrow> v \<noteq> [])"

subsection \<open>Objects, descriptors and the process state\<close>

type_synonym ref = nat
type_synonym uuid = string

text \<open>
  A module has a name (\<open>__name__\<close>), a file (\<open>__file__\<close>, \<open>None\<close> when the attribute is
  missing) and top-level attributes that refer to objects. A class or function has the
  name of its defining module (\<open>__module__\<close>) and its own name (\<open>__name__\<close>). Objects live
  in a heap; \<open>is\<close> compares references.
\<close>

record py_module =
  mod_name :: string
  mod_file :: "string option"
  mod_attrs :: "string \<rightharpoonup> ref"

record py_def =
  def_module :: string
  def_name :: string

datatype py_object = Module py_module | Definition py_def

text \<open>
  Modelled from the spec: the classes of \<open>zenml.config.source\<close> (\<open>SourceType\<close>,
  \<open>Source\<close>, \<open>CodeRepositorySource\<close>, \<open>DistributionPackageSource\<close>) are not in the
  file. The spec (3, Source Descriptor) gives a descriptor a module path, an optional
  attribute, a classification, and per variant the repository identifier, commit and
  subdirectory, or the package name and optional version. The source types are the six
  that \<open>source_utils\<close> names; a code repository source has the type
  \<open>CODE_REPOSITORY\<close>, the one \<open>load\<close> parses it under, and a distribution package
  source the type it is given.
\<close>

datatype SourceType =
  USER | BUILTIN | INTERNAL | DISTRIBUTION_PACKAGE | CODE_REPOSITORY | UNKNOWN

datatype payload =
    NoPayload
  | CodeRepositoryPayload (repository_id: uuid) (commit: string) (subdirectory: string)
  | DistributionPackagePayload (package_name: string) (package_version: "string option")

record source =
  src_module :: string
  src_attribute :: "string option"
  src_type :: SourceType
  src_payload :: payload

definition Source :: "string \<Rightarrow> string option \<Rightarrow> SourceType \<Rightarrow> source" where
  "Source m a t = \<lparr>src_module = m, src_attribute = a, src_type = t, src_payload = NoPayload\<rparr>"

definition CodeRepositorySource ::
  "uuid \<Rightarrow> string \<Rightarrow> string \<Rightarrow> string \<Rightarrow> string option \<Rightarrow> source" where
  "CodeRepositorySource rid c subdir m a =
     \<lparr>src_module = m, src_attribute = a, src_type = CODE_REPOSITORY,
      src_payload = CodeRepositoryPayload rid c subdir\<rparr>"

definition DistributionPackageSource ::
  "string \<Rightarrow> string option \<Rightarrow> string \<Rightarrow> string option \<Rightarrow> SourceType \<Rightarrow> source" where
  "DistributionPackageSource m a pkg v t =
     \<lparr>src_module = m, src_attribute = a, src_type = t,
      src_payload = DistributionPackagePayload pkg v\<rparr>"

text \<open>
  Modelled from the spec: \<open>zenml.code_repositories\<close> is not in the file. A
  \<open>LocalRepositoryContext\<close> (spec 3, Repository Context) has the repository identifier,
  the root, the active commit and the flags that \<open>source_utils\<close> reads: \<open>is_dirty\<close>
  (uncommitted changes) and \<open>has_local_changes\<close>. Of a code repository only its \<open>id\<close>
  is read.
\<close>

record local_repo_context =
  code_repository_id :: uuid
  root :: string
  current_commit :: string
  is_dirty :: bool
  has_local_changes :: bool

record code_repository =
  repo_id :: uuid

text \<open>
  Calls that leave the process to look for a repository: the listing of the registered
  code repositories, and one repository's probe of a path for a working copy.
\<close>

datatype probe = ListCodeRepositories | GetLocalContext uuid string

datatype warning =
    RepositoryNotActive | DifferentRepositoryActive | DifferentCommit
  | UncommittedChanges | PackageVersionMismatch

record pystate =
  heap :: "ref \<rightharpoonup> py_object"
  sys_modules :: "string \<rightharpoonup> ref"
  sys_path :: "string list"
  CUSTOM_SOURCE_ROOT :: "string option"
  CODE_REPOSITORY_CACHE :: "string \<rightharpoonup> local_repo_context"
  probes :: "probe list"

text \<open>
  What lies outside the file. \<open>cwd\<close> is \<open>os.getcwd()\<close>;
  \<open>find_repository\<close> is \<open>Client.find_repository()\<close>;
  \<open>fs_resolve\<close> is \<open>Path(p).resolve()\<close> as a string; \<open>stdlib_root\<close> is
  \<open>get_python_lib(standard_lib=True)\<close>; \<open>site_packages\<close> is
  \<open>site.getsitepackages() + [site.getusersitepackages()]\<close>; \<open>version\<close> is \<open>None\<close> where
  the metadata lookup raises; \<open>list_code_repositories\<close> is the depaginated listing;
  \<open>from_model\<close> is \<open>None\<close> where instantiating the repository class raises;
  \<open>get_local_context\<close> is the repository's probe of a path;
  \<open>downloaded_repository_context\<close> is the constructor of \<open>_DownloadedRepositoryContext\<close>;
  \<open>find_and_load\<close> is the import of a module that \<open>sys.modules\<close> does not hold yet (it
  runs the module's code, so it may change the state in any way);
  \<open>from_import_path\<close> is \<open>Source.from_import_path\<close>.
\<close>

record world =
  cwd :: string
  find_repository :: "string option"
  fs_resolve :: "string \<Rightarrow> string"
  stdlib_root :: string
  site_packages :: "string list"
  packages_distributions :: "string \<rightharpoonup> string list"
  version :: "string \<rightharpoonup> string"
  list_code_repositories :: "uuid list"
  from_model :: "uuid \<Rightarrow> code_repository option"
  get_local_context :: "code_repository \<Rightarrow> string \<Rightarrow> local_repo_context option"
  downloaded_repository_context :: "uuid \<Rightarrow> string \<Rightarrow> string \<Rightarrow> local_repo_context"
  find_and_load :: "pystate \<Rightarrow> string \<Rightarrow> (py_error + ref) \<times> pystate"
  from_import_path :: "string \<Rightarrow> py_error + source"

definition abspath :: "world \<Rightarrow> string \<Rightarrow> string" where
  "abspath w p = abspath_in (cwd w) p"

subsection \<open>The source root\<close>

text \<open>\<open>Path(p).parent\<close> as a string.\<close>

definition path_parent :: "string \<Rightarrow> string" where
  "path_parent p = as_posix (fst (PurePath p), butlast (snd (PurePath p)))"

definition get_source_root :: "world \<Rightarrow> pystate \<Rightarrow> py_error + string" where
  "get_source_root w s =
     (if truthy (CUSTOM_SOURCE_ROOT s) then Inr (the (CUSTOM_SOURCE_ROOT s))
      else case find_repository w of
        Some repo_root \<Rightarrow> Inr (fs_resolve w repo_root)
      | None \<Rightarrow>
          (case sys_modules s ''__main__'' of
             None \<Rightarrow> Inl (RuntimeError MainModuleNotFound)
           | Some r \<Rightarrow>
               (case heap s r of
                  Some (Module main_module) \<Rightarrow>
                    if \<not> truthy (mod_file main_module)
                    then Inl (RuntimeError MainModuleHasNoFile)
                    else Inr (path_parent (fs_resolve w (the (mod_file main_module))))
                | _ \<Rightarrow> Inl (RuntimeError MainModuleHasNoFile))))"

definition set_custom_source_root :: "string option \<Rightarrow> pystate \<Rightarrow> pystate" where
  "set_custom_source_root source_root s = s\<lparr>CUSTOM_SOURCE_ROOT := source_root\<rparr>"

subsection \<open>The code repository cache\<close>

text \<open>
  \<open>set_custom_local_repository\<close>: the context is stored under the absolute path of the
  current source root.
\<close>

definition set_custom_local_repository ::
  "world \<Rightarrow> pystate \<Rightarrow> string \<Rightarrow> string \<Rightarrow> code_repository \<Rightarrow> (py_error + unit) \<times> pystate" where
  "set_custom_local_repository w s root' commit' repo =
     (case get_source_root w s of
        Inl e \<Rightarrow> (Inl e, s)
      | Inr source_root \<Rightarrow>
          let path = abspath w source_root
          in (Inr (),
              s\<lparr>CODE_REPOSITORY_CACHE :=
                  (CODE_REPOSITORY_CACHE s)
                    (path \<mapsto> downloaded_repository_context w (repo_id repo) root' commit')\<rparr>))"

text \<open>
  The loop of \<open>find_active_code_repository\<close> over the listed repositories: a model whose
  class cannot be instantiated is skipped, every other one probes the path, and the first
  context found ends the loop. The probes made are returned with the result.
\<close>

fun probe_repositories ::
  "world \<Rightarrow> string \<Rightarrow> uuid list \<Rightarrow> local_repo_context option \<times> probe list" where
  "probe_repositories w path [] = (None, [])"
| "probe_repositories w path (model # models) =
     (case from_model w model of
        None \<Rightarrow> probe_repositories w path models
      | Some repo \<Rightarrow>
          (case get_local_context w repo path of
             Some local_context \<Rightarrow> (Some local_context, [GetLocalContext (repo_id repo) path])
           | None \<Rightarrow>
               (let (found, ps) = probe_repositories w path models
                in (found, GetLocalContext (repo_id repo) path # ps))))"

definition find_active_code_repository ::
  "world \<Rightarrow> pystate \<Rightarrow> string option \<Rightarrow> (py_error + local_repo_context option) \<times> pystate" where
  "find_active_code_repository w s path =
     (case (if truthy path then Inr (the path) else get_source_root w s) of
        Inl e \<Rightarrow> (Inl e, s)
      | Inr p \<Rightarrow>
          let path' = abspath w p
          in case CODE_REPOSITORY_CACHE s path' of
               Some cached \<Rightarrow> (Inr (Some cached), s)
             | None \<Rightarrow>
                 (let (found, ps) = probe_repositories w path' (list_code_repositories w);
                      s1 = s\<lparr>probes := probes s @ ListCodeRepositories # ps\<rparr>
                  in case found of
                       Some local_context \<Rightarrow>
                         (Inr (Some local_context),
                          s1\<lparr>CODE_REPOSITORY_CACHE :=
                               (CODE_REPOSITORY_CACHE s1)(path' \<mapsto> local_context)\<rparr>)
                     | None \<Rightarrow> (Inr None, s1)))"

subsection \<open>Classifying a module\<close>

definition is_internal_module :: "string \<Rightarrow> bool" where
  "is_internal_module module_name = (top_level_name module_name = ''zenml'')"

definition is_user_file :: "world \<Rightarrow> pystate \<Rightarrow> string \<Rightarrow> py_error + bool" where
  "is_user_file w s file_path =
     (case get_source_root w s of
        Inl e \<Rightarrow> Inl e
      | Inr source_root \<Rightarrow>
          Inr (PurePath source_root \<in> set (parents (PurePath (fs_resolve w file_path)))))"

definition is_standard_lib_file :: "world \<Rightarrow> string \<Rightarrow> bool" where
  "is_standard_lib_file w file_path =
     (PurePath (fs_resolve w (stdlib_root w)) \<in> set (parents (PurePath (fs_resolve w file_path))))"

text \<open>\<open>_get_package_for_module\<close>: the one distribution that provides the top-level name.\<close>

definition get_package_for_module :: "world \<Rightarrow> string \<Rightarrow> string option" where
  "get_package_for_module w module_name =
     (let top_level_module = top_level_name module_name;
          package_names =
            (case packages_distributions w top_level_module of None \<Rightarrow> [] | Some ns \<Rightarrow> ns)
      in if length package_names = 1 then Some (package_names ! 0) else None)"

text \<open>\<open>_get_package_version\<close>: a failed lookup gives \<open>None\<close>.\<close>

definition get_package_version :: "world \<Rightarrow> string \<Rightarrow> string option" where
  "get_package_version w package_name' = version w package_name'"

definition is_distribution_package_file :: "world \<Rightarrow> string \<Rightarrow> string \<Rightarrow> bool" where
  "is_distribution_package_file w file_path module_name =
     (let absolute_file_path = PurePath (fs_resolve w file_path)
      in if \<exists>path \<in> set (site_packages w).
              PurePath (fs_resolve w path) \<in> set (parents absolute_file_path)
         then True
         else if truthy (get_package_for_module w module_name) then True
         else False)"

text \<open>
  \<open>get_source_type\<close>. \<open>inspect.getfile\<close> raises for a module whose \<open>__file__\<close> is missing,
  \<open>None\<close> or empty; an error of \<open>get_source_root\<close> inside \<open>is_user_file\<close> is not caught.
\<close>

definition get_source_type :: "world \<Rightarrow> pystate \<Rightarrow> py_module \<Rightarrow> py_error + SourceType" where
  "get_source_type w s m =
     (if \<not> truthy (mod_file m) then Inr BUILTIN
      else
        let file_path = the (mod_file m)
        in if is_internal_module (mod_name m) then Inr INTERNAL
           else if is_standard_lib_file w file_path then Inr BUILTIN
           else case is_user_file w s file_path of
                  Inl e \<Rightarrow> Inl e
                | Inr True \<Rightarrow> Inr USER
                | Inr False \<Rightarrow>
                    if is_distribution_package_file w file_path (mod_name m)
                    then Inr DISTRIBUTION_PACKAGE
                    else Inr UNKNOWN)"

subsection \<open>Importing with the source root on the search path\<close>

text \<open>
  \<open>prepend_python_path\<close> as a bracket around the body of the \<open>with\<close> block: the path is
  inserted at index 0, the body runs, and the \<open>finally\<close> clause removes the first
  occurrence of the path whether the body returned or raised. \<open>list.remove\<close> raises
  \<open>ValueError\<close> when the path is no longer in the list.
\<close>

definition prepend_python_path ::
  "string \<Rightarrow> (pystate \<Rightarrow> (py_error + 'a) \<times> pystate) \<Rightarrow> pystate \<Rightarrow> (py_error + 'a) \<times> pystate" where
  "prepend_python_path path body s =
     (let (r, s1) = body (s\<lparr>sys_path := path # sys_path s\<rparr>)
      in if path \<in> set (sys_path s1)
         then (r, s1\<lparr>sys_path := remove1 path (sys_path s1)\<rparr>)
         else (Inl ValueError, s1))"

text \<open>
  \<open>importlib.import_module\<close>: a module that \<open>sys.modules\<close> holds is returned as it is;
  any other is found and loaded by the import system.
\<close>

definition import_module :: "world \<Rightarrow> pystate \<Rightarrow> string \<Rightarrow> (py_error + ref) \<times> pystate" where
  "import_module w s module_name =
     (case sys_modules s module_name of
        Some r \<Rightarrow> (Inr r, s)
      | None \<Rightarrow> find_and_load w s module_name)"

text \<open>\<open>_load_module\<close>.\<close>

definition load_module ::
  "world \<Rightarrow> pystate \<Rightarrow> string \<Rightarrow> string option \<Rightarrow> (py_error + ref) \<times> pystate" where
  "load_module w s module_name import_root =
     (if truthy import_root
      then prepend_python_path (the import_root) (\<lambda>s'. import_module w s' module_name) s
      else import_module w s module_name)"

subsection \<open>Re-deriving a module path\<close>

text \<open>\<open>_resolve_module\<close>. \<open>os.path.relpath\<close> makes both of its arguments absolute itself.\<close>

definition resolve_module :: "world \<Rightarrow> pystate \<Rightarrow> py_module \<Rightarrow> py_error + string" where
  "resolve_module w s m =
     (if \<not> truthy (mod_file m)
      then (if mod_name m = ''__main__'' then Inl (RuntimeError NotLoadedFromFile)
            else Inr (mod_name m))
      else
        let module_file = abspath w (the (mod_file m))
        in case get_source_root w s of
             Inl e \<Rightarrow> Inl e
           | Inr r \<Rightarrow>
               let source_root = abspath w r;
                   module_source_path = relpath (abspath w module_file) (abspath w source_root)
               in if startswith module_source_path ''..''
                  then Inl (RuntimeError OutsideSourceRoot)
                  else
                    let (module_source_path', file_extension) = splitext module_source_path
                    in if file_extension \<noteq> ''.py'' then Inl (RuntimeError NotPythonFile)
                       else Inr (replace_char CHR ''/'' CHR ''.'' module_source_path'))"

subsection \<open>Drift warnings\<close>

text \<open>
  \<open>_warn_about_potential_source_loading_issues\<close>, given the repository id and the commit
  of the source: the result is the list of warnings logged. The first two messages format
  the source root, so \<open>get_source_root\<close> is called (and may raise) before the warning is
  logged.
\<close>

definition warn_about_potential_source_loading_issues ::
  "world \<Rightarrow> pystate \<Rightarrow> uuid \<Rightarrow> string \<Rightarrow> (py_error + warning list) \<times> pystate" where
  "warn_about_potential_source_loading_issues w s source_repository_id source_commit =
     (case find_active_code_repository w s None of
        (Inl e, s1) \<Rightarrow> (Inl e, s1)
      | (Inr None, s1) \<Rightarrow>
          (case get_source_root w s1 of
             Inl e \<Rightarrow> (Inl e, s1)
           | Inr _ \<Rightarrow> (Inr [RepositoryNotActive], s1))
      | (Inr (Some local_repo), s1) \<Rightarrow>
          if code_repository_id local_repo \<noteq> source_repository_id
          then (case get_source_root w s1 of
                  Inl e \<Rightarrow> (Inl e, s1)
                | Inr _ \<Rightarrow> (Inr [DifferentRepositoryActive], s1))
          else if current_commit local_repo \<noteq> source_commit
          then (Inr [DifferentCommit], s1)
          else if is_dirty local_repo then (Inr [UncommittedChanges], s1)
          else (Inr [], s1))"

subsection \<open>Loading\<close>

text \<open>
  The end of \<open>load\<close>: import the module, then fetch the attribute if the descriptor names
  one. The warnings logged so far are passed through.
\<close>

definition load_object ::
  "world \<Rightarrow> pystate \<Rightarrow> source \<Rightarrow> string option \<Rightarrow> warning list
     \<Rightarrow> (py_error + ref) \<times> warning list \<times> pystate" where
  "load_object w s src import_root ws =
     (case load_module w s (src_module src) import_root of
        (Inl e, s1) \<Rightarrow> (Inl e, ws, s1)
      | (Inr module, s1) \<Rightarrow>
          if truthy (src_attribute src)
          then (case heap s1 module of
                  Some (Module m) \<Rightarrow>
                    (case mod_attrs m (the (src_attribute src)) of
                       Some obj \<Rightarrow> (Inr obj, ws, s1)
                     | None \<Rightarrow> (Inl AttributeError, ws, s1))
                | _ \<Rightarrow> (Inl AttributeError, ws, s1))
          else (Inr module, ws, s1))"

text \<open>
  \<open>load\<close> of a descriptor. \<open>parse_obj\<close> fails when the fields of the variant are missing.
\<close>

definition load_source ::
  "world \<Rightarrow> pystate \<Rightarrow> source \<Rightarrow> (py_error + ref) \<times> warning list \<times> pystate" where
  "load_source w s src =
     (if src_type src = CODE_REPOSITORY then
        (case src_payload src of
           CodeRepositoryPayload rid c _ \<Rightarrow>
             (case warn_about_potential_source_loading_issues w s rid c of
                (Inl e, s1) \<Rightarrow> (Inl e, [], s1)
              | (Inr ws, s1) \<Rightarrow>
                  (case get_source_root w s1 of
                     Inl e \<Rightarrow> (Inl e, ws, s1)
                   | Inr import_root \<Rightarrow> load_object w s1 src (Some import_root) ws))
         | _ \<Rightarrow> (Inl ValidationError, [], s))
      else if src_type src = DISTRIBUTION_PACKAGE then
        (case src_payload src of
           DistributionPackagePayload pkg v \<Rightarrow>
             load_object w s src None
               (if truthy v \<and> get_package_version w pkg \<noteq> v then [PackageVersionMismatch]
                else [])
         | _ \<Rightarrow> (Inl ValidationError, [], s))
      else if src_type src \<in> {USER, UNKNOWN} then
        (case get_source_root w s of
           Inl e \<Rightarrow> (Inl e, [], s)
         | Inr import_root \<Rightarrow> load_object w s src (Some import_root) [])
      else load_object w s src None [])"

text \<open>\<open>load\<close>: an import path is turned into a descriptor first.\<close>

definition load ::
  "world \<Rightarrow> pystate \<Rightarrow> string + source \<Rightarrow> (py_error + ref) \<times> warning list \<times> pystate" where
  "load w s arg =
     (case arg of
        Inl import_path \<Rightarrow>
          (case from_import_path w import_path of
             Inl e \<Rightarrow> (Inl e, [], s)
           | Inr src \<Rightarrow> load_source w s src)
      | Inr src \<Rightarrow> load_source w s src)"

subsection \<open>Resolving\<close>

text \<open>
  \<open>resolve\<close> after its first lines, which find the module and the attribute name:
  the top-level check, the entry-point module, the classification and its branches.
\<close>

definition resolve_in ::
  "world \<Rightarrow> pystate \<Rightarrow> ref \<Rightarrow> py_module \<Rightarrow> string option \<Rightarrow> (py_error + source) \<times> pystate" where
  "resolve_in w s obj m attribute_name =
     (if truthy attribute_name \<and> mod_attrs m (the attribute_name) \<noteq> Some obj
      then (Inl (RuntimeError NotTopLevel), s)
      else
        case (if mod_name m = ''__main__'' then resolve_module w s m else Inr (mod_name m)) of
          Inl e \<Rightarrow> (Inl e, s)
        | Inr module_name \<Rightarrow>
            (case get_source_type w s m of
               Inl e \<Rightarrow> (Inl e, s)
             | Inr source_type \<Rightarrow>
                 if source_type = USER then
                   (case find_active_code_repository w s None of
                      (Inl e, s1) \<Rightarrow> (Inl e, s1)
                    | (Inr local_repo_context, s1) \<Rightarrow>
                        if local_repo_context \<noteq> None
                           \<and> \<not> has_local_changes (the local_repo_context)
                        then
                          (case resolve_module w s1 m of
                             Inl e \<Rightarrow> (Inl e, s1)
                           | Inr module_name' \<Rightarrow>
                               (case get_source_root w s1 of
                                  Inl e \<Rightarrow> (Inl e, s1)
                                | Inr source_root \<Rightarrow>
                                    (case relative_to (PurePath source_root)
                                            (PurePath (root (the local_repo_context))) of
                                       Inl e \<Rightarrow> (Inl e, s1)
                                     | Inr subdir \<Rightarrow>
                                         (Inr (CodeRepositorySource
                                                 (code_repository_id (the local_repo_context))
                                                 (current_commit (the local_repo_context))
                                                 (as_posix subdir) module_name' attribute_name),
                                          s1))))
                        else
                          (case resolve_module w s1 m of
                             Inl e \<Rightarrow> (Inl e, s1)
                           | Inr module_name' \<Rightarrow>
                               (Inr (Source module_name' attribute_name source_type), s1)))
                 else if source_type = DISTRIBUTION_PACKAGE then
                   (let package_name' = get_package_for_module w module_name
                    in if truthy package_name'
                       then (Inr (DistributionPackageSource module_name attribute_name
                                    (the package_name')
                                    (get_package_version w (the package_name')) source_type), s)
                       else (Inr (Source module_name attribute_name UNKNOWN), s))
                 else (Inr (Source module_name attribute_name source_type), s)))"

text \<open>
  \<open>resolve\<close>. The argument is a reference into the heap. A module stands for itself and
  has no attribute name; for a class or function the module is \<open>sys.modules[obj.__module__]\<close>
  (a \<open>KeyError\<close> when it is missing) and the attribute name is \<open>obj.__name__\<close>. A
  reference that the heap does not hold, or an entry of \<open>sys.modules\<close> that is not a
  module, has no counterpart that the properties below speak of; the model answers
  \<open>TypeError\<close>.
\<close>

definition resolve :: "world \<Rightarrow> pystate \<Rightarrow> ref \<Rightarrow> (py_error + source) \<times> pystate" where
  "resolve w s obj =
     (case heap s obj of
        None \<Rightarrow> (Inl TypeError, s)
      | Some (Module m) \<Rightarrow> resolve_in w s obj m None
      | Some (Definition d) \<Rightarrow>
          (case sys_modules s (def_module d) of
             None \<Rightarrow> (Inl KeyError, s)
           | Some mr \<Rightarrow>
               (case heap s mr of
                  Some (Module m) \<Rightarrow> resolve_in w s obj m (Some (def_name d))
                | _ \<Rightarrow> (Inl TypeError, s))))"

section \<open>Notions for stating the properties\<close>

text \<open>Lookups of the active repository, one after the other, for any paths.\<close>

definition lookup_all :: "world \<Rightarrow> string option list \<Rightarrow> pystate \<Rightarrow> pystate" where
  "lookup_all w paths s = fold (\<lambda>p s'. snd (find_active_code_repository w s' p)) paths s"

text \<open>
  The drift conditions of a code repository source, in the order in which they are
  checked: no repository active, another repository active, another commit, uncommitted
  changes. \<open>first_holding\<close> keeps the outcome of the first condition that holds.
\<close>

definition drift_conditions ::
  "local_repo_context option \<Rightarrow> uuid \<Rightarrow> string \<Rightarrow> (bool \<times> warning) list" where
  "drift_conditions active source_repository_id source_commit =
     [(active = None, RepositoryNotActive),
      (case active of None \<Rightarrow> False
       | Some c \<Rightarrow> code_repository_id c \<noteq> source_repository_id, DifferentRepositoryActive),
      (case active of None \<Rightarrow> False
       | Some c \<Rightarrow> current_commit c \<noteq> source_commit, DifferentCommit),
      (case active of None \<Rightarrow> False | Some c \<Rightarrow> is_dirty c, UncommittedChanges)]"

definition first_holding :: "(bool \<times> 'a) list \<Rightarrow> 'a list" where
  "first_holding conditions = map snd (take 1 (filter fst conditions))"

text \<open>
  The import system leaves the search path alone: module code that runs during an import
  does not itself insert into or remove from \<open>sys.path\<close>.
\<close>

definition import_keeps_sys_path :: "world \<Rightarrow> bool" where
  "import_keeps_sys_path w = (\<forall>s n. sys_path (snd (find_and_load w s n)) = sys_path s)"

text \<open>
  The rules of the classifier in the words of its description: the file lives under a
  directory when the directory is a proper ancestor of the resolved file; the rules are
  tried in order and the last one always holds.
\<close>

definition lives_under :: "world \<Rightarrow> string \<Rightarrow> pure_path \<Rightarrow> bool" where
  "lives_under w file_path directory = (directory \<in> set (parents (PurePath (fs_resolve w file_path))))"

definition classification_rules ::
  "world \<Rightarrow> py_module \<Rightarrow> string \<Rightarrow> (bool \<times> SourceType) list" where
  "classification_rules w m source_root =
     [(\<not> truthy (mod_file m), BUILTIN),
      (top_level_name (mod_name m) = ''zenml'', INTERNAL),
      (lives_under w (the (mod_file m)) (PurePath (fs_resolve w (stdlib_root w))), BUILTIN),
      (lives_under w (the (mod_file m)) (PurePath source_root), USER),
      ((\<exists>d \<in> set (site_packages w).
           lives_under w (the (mod_file m)) (PurePath (fs_resolve w d)))
       \<or> truthy (get_package_for_module w (mod_name m)), DISTRIBUTION_PACKAGE),
      (True, UNKNOWN)]"

text \<open>
  The first lines of \<open>resolve\<close> as a function: the module of an object and its attribute
  name, where both exist.
\<close>

definition module_and_attribute :: "pystate \<Rightarrow> ref \<Rightarrow> (py_module \<times> string option) option" where
  "module_and_attribute s obj =
     (case heap s obj of
        None \<Rightarrow> None
      | Some (Module m) \<Rightarrow> Some (m, None)
      | Some (Definition d) \<Rightarrow>
          (case sys_modules s (def_module d) of
             None \<Rightarrow> None
           | Some mr \<Rightarrow>
               (case heap s mr of
                  Some (Module m) \<Rightarrow> Some (m, Some (def_name d))
                | _ \<Rightarrow> None)))"

text \<open>The condition under which \<open>resolve\<close> raises for an object that is not top level.\<close>

definition fails_top_level_check :: "py_module \<Rightarrow> string option \<Rightarrow> ref \<Rightarrow> bool" where
  "fails_top_level_check m attribute_name obj =
     (truthy attribute_name \<and> mod_attrs m (the attribute_name) \<noteq> Some obj)"

text \<open>\<open>packages_distributions().get(top_level_module, [])\<close>: the distributions that own the top-level name of a module.\<close>

definition owners :: "world \<Rightarrow> string \<Rightarrow> string list" where
  "owners w module_name =
     (case packages_distributions w (top_level_name module_name) of
        None \<Rightarrow> [] | Some ns \<Rightarrow> ns)"

text \<open>
  Components as \<open>normpath\<close> leaves them in an absolute path: not empty, not \<open>.\<close>, not
  \<open>..\<close>, and without a separator.
\<close>

definition plain_components :: "string list \<Rightarrow> bool" where
  "plain_components cs = (\<forall>c \<in> set cs. c \<noteq> [] \<and> c \<noteq> ''.'' \<and> c \<noteq> ''..'' \<and> CHR ''/'' \<notin> set c)"

section \<open>Example environments\<close>

text \<open>
  A machine with no ZenML repository, no installed distribution and no registered code
  repository, whose file system has no symbolic links, and an injected context that
  reports a clean working copy.
\<close>

definition ex_world :: world where
  "ex_world =
     \<lparr>cwd = ''/home/user'',
      find_repository = None,
      fs_resolve = (\<lambda>p. p),
      stdlib_root = ''/usr/lib/python3.8'',
      site_packages = [''/venv/lib/python3.8/site-packages''],
      packages_distributions = Map.empty,
      version = Map.empty,
      list_code_repositories = [],
      from_model = (\<lambda>_. None),
      get_local_context = (\<lambda>_ _. None),
      downloaded_repository_context =
        (\<lambda>rid r c. \<lparr>code_repository_id = rid, root = r, current_commit = c,
                      is_dirty = False, has_local_changes = False\<rparr>),
      find_and_load = (\<lambda>s n. (Inl ModuleNotFoundError, s)),
      from_import_path = (\<lambda>p. Inr (Source p None UNKNOWN))\<rparr>"

text \<open>An interactive session: the entry-point module has no file.\<close>

definition interactive_state :: pystate where
  "interactive_state =
     \<lparr>heap = [0 \<mapsto> Module \<lparr>mod_name = ''__main__'', mod_file = None, mod_attrs = Map.empty\<rparr>],
      sys_modules = [''__main__'' \<mapsto> 0],
      sys_path = [''/usr/lib/python3.8''],
      CUSTOM_SOURCE_ROOT = None,
      CODE_REPOSITORY_CACHE = Map.empty,
      probes = []\<rparr>"

text \<open>The script \<open>/proj/run.py\<close>, run as the entry point, defines the function \<open>f\<close>.\<close>

definition script_state :: pystate where
  "script_state =
     \<lparr>heap = [0 \<mapsto> Module \<lparr>mod_name = ''__main__'', mod_file = Some ''/proj/run.py'',
                            mod_attrs = [''f'' \<mapsto> 1]\<rparr>,
              1 \<mapsto> Definition \<lparr>def_module = ''__main__'', def_name = ''f''\<rparr>],
      sys_modules = [''__main__'' \<mapsto> 0],
      sys_path = [''/usr/lib/python3.8''],
      CUSTOM_SOURCE_ROOT = None,
      CODE_REPOSITORY_CACHE = Map.empty,
      probes = []\<rparr>"

text \<open>
  The same machine with one registered code repository, \<open>r1\<close>, that has a working copy at
  \<open>/proj\<close>.
\<close>

definition tracked_world :: world where
  "tracked_world =
     ex_world\<lparr>list_code_repositories := [''r1''],
              from_model := (\<lambda>m. Some \<lparr>repo_id = m\<rparr>),
              get_local_context :=
                (\<lambda>repo p. if p = ''/proj''
                   then Some \<lparr>code_repository_id = repo_id repo, root = ''/proj'',
                              current_commit = ''c0ffee'', is_dirty = False,
                              has_local_changes = False\<rparr>
                   else None)\<rparr>"

text \<open>
  The script's state after \<open>set_custom_local_repository("/r", "abc123", R)\<close> on that
  machine.
\<close>

definition injected_state :: pystate where
  "injected_state =
     snd (set_custom_local_repository tracked_world script_state ''/r'' ''abc123''
            \<lparr>repo_id = ''R''\<rparr>)"

text \<open>The working copy at \<open>/proj\<close> has uncommitted changes.\<close>

definition dirty_world :: world where
  "dirty_world =
     tracked_world\<lparr>get_local_context :=
       (\<lambda>repo p. if p = ''/proj''
          then Some \<lparr>code_repository_id = repo_id repo, root = ''/proj'',
                     current_commit = ''c0ffee'', is_dirty = True,
                     has_local_changes = True\<rparr>
          else None)\<rparr>"

text \<open>
  The import system for the script's machine: with \<open>/proj\<close> on the search path,
  importing \<open>run\<close> runs \<open>/proj/run.py\<close> again, which creates a new module object and a
  new function object \<open>f\<close>; nothing else can be imported.
\<close>

definition import_run_script :: "pystate \<Rightarrow> string \<Rightarrow> (py_error + ref) \<times> pystate" where
  "import_run_script s n =
     (if n = ''run'' \<and> ''/proj'' \<in> set (sys_path s)
      then (Inr 2,
            s\<lparr>heap := (heap s)
                  (2 \<mapsto> Module \<lparr>mod_name = ''run'', mod_file = Some ''/proj/run.py'',
                                 mod_attrs = [''f'' \<mapsto> 3]\<rparr>,
                   3 \<mapsto> Definition \<lparr>def_module = ''run'', def_name = ''f''\<rparr>),
              sys_modules := (sys_modules s)(''run'' \<mapsto> 2)\<rparr>)
      else (Inl ModuleNotFoundError, s))"

definition script_world :: world where
  "script_world = tracked_world\<lparr>find_and_load := import_run_script\<rparr>"

text \<open>A virtual environment inside the source root \<open>/proj\<close>, and a module installed in it.\<close>

definition nested_venv_world :: world where
  "nested_venv_world = ex_world\<lparr>site_packages := [''/proj/venv/lib/python3.8/site-packages'']\<rparr>"

definition venv_module :: py_module where
  "venv_module =
     \<lparr>mod_name = ''pkg.mod'',
      mod_file = Some ''/proj/venv/lib/python3.8/site-packages/pkg/mod.py'',
      mod_attrs = Map.empty\<rparr>"

text \<open>An installed module outside the source root.\<close>

definition numpy_module :: py_module where
  "numpy_module =
     \<lparr>mod_name = ''numpy'',
      mod_file = Some ''/venv/lib/python3.8/site-packages/numpy/__init__.py'',
      mod_attrs = Map.empty\<rparr>"

text \<open>
  A project at \<open>/proj\<close>, run from \<open>/proj/run.py\<close>. The module \<open>helpers\<close> defines the
  function \<open>f\<close> (object 2); object 3 is a function \<open>inner\<close> that was defined inside
  another function of \<open>helpers\<close>, and object 4 a class made there by
  \<open>type("", (), {})\<close>, whose name is empty: neither is an attribute of the module. The module
  \<open>fast\<close> is a compiled extension with the function \<open>g\<close> (object 6). \<open>numpy.linalg\<close>
  is installed in the virtual environment at \<open>/venv\<close>.
\<close>

definition helpers_module :: py_module where
  "helpers_module =
     \<lparr>mod_name = ''helpers'', mod_file = Some ''/proj/helpers.py'',
      mod_attrs = [''f'' \<mapsto> 2]\<rparr>"

definition fast_module :: py_module where
  "fast_module =
     \<lparr>mod_name = ''fast'', mod_file = Some ''/proj/fast.so'', mod_attrs = [''g'' \<mapsto> 6]\<rparr>"

definition linalg_module :: py_module where
  "linalg_module =
     \<lparr>mod_name = ''numpy.linalg'',
      mod_file = Some ''/venv/lib/python3.8/site-packages/numpy/linalg/__init__.py'',
      mod_attrs = [''norm'' \<mapsto> 8]\<rparr>"

definition project_state :: pystate where
  "project_state =
     \<lparr>heap = [0 \<mapsto> Module \<lparr>mod_name = ''__main__'', mod_file = Some ''/proj/run.py'',
                            mod_attrs = Map.empty\<rparr>,
              1 \<mapsto> Module helpers_module,
              2 \<mapsto> Definition \<lparr>def_module = ''helpers'', def_name = ''f''\<rparr>,
              3 \<mapsto> Definition \<lparr>def_module = ''helpers'', def_name = ''inner''\<rparr>,
              4 \<mapsto> Definition \<lparr>def_module = ''helpers'', def_name = []\<rparr>,
              5 \<mapsto> Module fast_module,
              6 \<mapsto> Definition \<lparr>def_module = ''fast'', def_name = ''g''\<rparr>,
              7 \<mapsto> Module linalg_module,
              8 \<mapsto> Definition \<lparr>def_module = ''numpy.linalg'', def_name = ''norm''\<rparr>],
      sys_modules = [''__main__'' \<mapsto> 0, ''helpers'' \<mapsto> 1, ''fast'' \<mapsto> 5,
                     ''numpy.linalg'' \<mapsto> 7],
      sys_path = [''/usr/lib/python3.8''],
      CUSTOM_SOURCE_ROOT = None,
      CODE_REPOSITORY_CACHE = Map.empty,
      probes = []\<rparr>"

text \<open>
  Machines with installed distributions: \<open>numpy\<close> 1.24.0 owns the top-level name
  \<open>numpy\<close>; on the second machine \<open>numpy-nightly\<close> owns it as well.
\<close>

definition numpy_world :: world where
  "numpy_world =
     ex_world\<lparr>packages_distributions := [''numpy'' \<mapsto> [''numpy'']],
              version := [''numpy'' \<mapsto> ''1.24.0'']\<rparr>"

definition shared_name_world :: world where
  "shared_name_world =
     numpy_world\<lparr>packages_distributions := [''numpy'' \<mapsto> [''numpy'', ''numpy-nightly'']]\<rparr>"

text \<open>
  A tool installed in the virtual environment and run with \<open>python -m tool\<close>, the source
  root set to \<open>/proj\<close>: the entry-point module is \<open>tool/__main__.py\<close> in site-packages.
\<close>

definition tool_main :: py_module where
  "tool_main =
     \<lparr>mod_name = ''__main__'',
      mod_file = Some ''/venv/lib/python3.8/site-packages/tool/__main__.py'',
      mod_attrs = Map.empty\<rparr>"

definition tool_state :: pystate where
  "tool_state =
     \<lparr>heap = [0 \<mapsto> Module tool_main],
      sys_modules = [''__main__'' \<mapsto> 0],
      sys_path = [''/usr/lib/python3.8''],
      CUSTOM_SOURCE_ROOT = Some ''/proj'',
      CODE_REPOSITORY_CACHE = Map.empty,
      probes = []\<rparr>"

text \<open>
  A module in a package below the source root, and a module in a directory of the
  project whose name begins with two dots.
\<close>

definition nested_module :: py_module where
  "nested_module =
     \<lparr>mod_name = ''mod'', mod_file = Some ''/proj/pkg/sub/mod.py'', mod_attrs = Map.empty\<rparr>"

definition dotted_directory_module :: py_module where
  "dotted_directory_module =
     \<lparr>mod_name = ''mod'', mod_file = Some ''/proj/..cfg/mod.py'', mod_attrs = Map.empty\<rparr>"

text \<open>
  The script's machine, changed in one point: the code of \<open>run.py\<close> appends
  \<open>/proj/vendor\<close> to \<open>sys.path\<close> when it runs.
\<close>

definition import_appending :: "pystate \<Rightarrow> string \<Rightarrow> (py_error + ref) \<times> pystate" where
  "import_appending s n =
     (case import_run_script s n of
        (r, s') \<Rightarrow> (r, s'\<lparr>sys_path := sys_path s' @ [''/proj/vendor'']\<rparr>))"

definition appending_world :: world where
  "appending_world = tracked_world\<lparr>find_and_load := import_appending\<rparr>"

section \<open>Properties: the source root\<close>

lemma get_source_root_cong:
  assumes "heap s' = heap s" "sys_modules s' = sys_modules s"
    "CUSTOM_SOURCE_ROOT s' = CUSTOM_SOURCE_ROOT s"
  shows "get_source_root w s' = get_source_root w s"
  using assms by (simp add: get_source_root_def split: option.splits py_object.splits)

text \<open>
  C8, as the code has it. The override is whatever \<open>set_custom_source_root\<close> stored last:
  a non-empty string set over any earlier state is the source root; \<open>None\<close> or the empty
  string leaves the decision to the other rules. Without an override the repository root
  that the client reports is taken; without either, the parent directory of the
  entry-point module's file; and when that module is missing or has no file, the
  derivation fails with a \<open>RuntimeError\<close>.
\<close>

theorem source_root_priority:
  "(truthy v \<longrightarrow> get_source_root w (set_custom_source_root v s) = Inr (the v))
   \<and> (\<not> truthy v \<longrightarrow>
        get_source_root w (set_custom_source_root v s)
          = get_source_root w (set_custom_source_root None s))
   \<and> (\<not> truthy (CUSTOM_SOURCE_ROOT s) \<and> find_repository w = Some repo_root \<longrightarrow>
        get_source_root w s = Inr (fs_resolve w repo_root))
   \<and> (\<not> truthy (CUSTOM_SOURCE_ROOT s) \<and> find_repository w = None
        \<and> sys_modules s ''__main__'' = Some r \<and> heap s r = Some (Module main_module)
        \<and> truthy (mod_file main_module) \<longrightarrow>
        get_source_root w s = Inr (path_parent (fs_resolve w (the (mod_file main_module)))))
   \<and> (\<not> truthy (CUSTOM_SOURCE_ROOT s) \<and> find_repository w = None
        \<and> sys_modules s ''__main__'' = Some r \<and> heap s r = Some (Module main_module)
        \<and> \<not> truthy (mod_file main_module) \<longrightarrow>
        get_source_root w s = Inl (RuntimeError MainModuleHasNoFile))
   \<and> (\<not> truthy (CUSTOM_SOURCE_ROOT s) \<and> find_repository w = None
        \<and> sys_modules s ''__main__'' = None \<longrightarrow>
        get_source_root w s = Inl (RuntimeError MainModuleNotFound))"
  by (simp add: get_source_root_def set_custom_source_root_def truthy_def
        split: option.splits py_object.splits)

theorem source_root_priority_witness:
  "get_source_root (ex_world\<lparr>find_repository := Some ''/repo''\<rparr>)
       (set_custom_source_root (Some ''/custom'') script_state) = Inr ''/custom''
   \<and> get_source_root (ex_world\<lparr>find_repository := Some ''/repo''\<rparr>) script_state = Inr ''/repo''
   \<and> get_source_root ex_world script_state = Inr ''/proj''
   \<and> get_source_root ex_world interactive_state = Inl (RuntimeError MainModuleHasNoFile)
   \<and> get_source_root ex_world (interactive_state\<lparr>sys_modules := Map.empty\<rparr>)
       = Inl (RuntimeError MainModuleNotFound)"
proof -
  let ?w = "ex_world\<lparr>find_repository := Some ''/repo''\<rparr>"
  let ?m = "\<lparr>mod_name = ''__main__'', mod_file = Some ''/proj/run.py'', mod_attrs = [''f'' \<mapsto> 1]\<rparr>"
  let ?i = "\<lparr>mod_name = ''__main__'', mod_file = None, mod_attrs = Map.empty\<rparr>"
  have parent: "path_parent ''/proj/run.py'' = ''/proj''"
    by (simp add: path_parent_def PurePath_def path_root_def startswith_def as_posix_def)
  note p1 = source_root_priority [of "Some ''/custom''" ?w script_state "''/repo''" 0 ?m]
  note p2 = source_root_priority [of None ?w script_state "''/repo''" 0 ?m]
  note p3 = source_root_priority [of None ex_world script_state "''/repo''" 0 ?m]
  note p4 = source_root_priority [of None ex_world interactive_state "''/repo''" 0 ?i]
  note p5 = source_root_priority
    [of None ex_world "interactive_state\<lparr>sys_modules := Map.empty\<rparr>" "''/repo''" 0 ?i]
  have "get_source_root ?w (set_custom_source_root (Some ''/custom'') script_state) = Inr ''/custom''"
    using p1 by (simp add: truthy_def)
  moreover have "get_source_root ?w script_state = Inr ''/repo''"
    using p2 by (simp add: truthy_def script_state_def ex_world_def)
  moreover have "get_source_root ex_world script_state = Inr ''/proj''"
    using p3 parent by (simp add: truthy_def script_state_def ex_world_def)
  moreover have "get_source_root ex_world interactive_state = Inl (RuntimeError MainModuleHasNoFile)"
    using p4 by (simp add: truthy_def interactive_state_def ex_world_def)
  moreover have "get_source_root ex_world (interactive_state\<lparr>sys_modules := Map.empty\<rparr>)
       = Inl (RuntimeError MainModuleNotFound)"
    using p5 by (simp add: truthy_def interactive_state_def ex_world_def)
  ultimately show ?thesis by blast
qed

text \<open>
  The override is not limited to one assignment: a second call replaces the value of the
  first, and the source root follows it.
\<close>

theorem source_root_override_replaced:
  "get_source_root ex_world
     (set_custom_source_root (Some ''/b'') (set_custom_source_root (Some ''/a'') script_state))
     = Inr ''/b''"
  by (simp add: get_source_root_def set_custom_source_root_def truthy_def)

section \<open>Properties: the code repository cache\<close>

text \<open>A lookup changes nothing but the cache and the record of probes.\<close>

lemma find_active_frame:
  assumes "find_active_code_repository w s p = (r, s1)"
  shows "heap s1 = heap s \<and> sys_modules s1 = sys_modules s \<and> sys_path s1 = sys_path s
         \<and> CUSTOM_SOURCE_ROOT s1 = CUSTOM_SOURCE_ROOT s"
  using assms
  by (auto simp: find_active_code_repository_def Let_def
           split: sum.splits option.splits prod.splits if_splits)

text \<open>A lookup never replaces an entry of the cache.\<close>

lemma find_active_keeps_entries:
  assumes "find_active_code_repository w s p = (r, s1)"
    and "CODE_REPOSITORY_CACHE s k = Some c"
  shows "CODE_REPOSITORY_CACHE s1 k = Some c"
  using assms
  by (auto simp: find_active_code_repository_def Let_def
           split: sum.splits option.splits prod.splits if_splits)

lemma find_active_hit:
  assumes "(if truthy p then Inr (the p) else get_source_root w s) = Inr q"
    and "CODE_REPOSITORY_CACHE s (abspath w q) = Some c"
  shows "find_active_code_repository w s p = (Inr (Some c), s)"
  using assms by (simp add: find_active_code_repository_def)

lemma lookup_all_inv:
  assumes "CODE_REPOSITORY_CACHE s k = Some c"
  shows "CODE_REPOSITORY_CACHE (lookup_all w ps s) k = Some c
         \<and> heap (lookup_all w ps s) = heap s
         \<and> sys_modules (lookup_all w ps s) = sys_modules s
         \<and> CUSTOM_SOURCE_ROOT (lookup_all w ps s) = CUSTOM_SOURCE_ROOT s"
  using assms
proof (induction ps arbitrary: s)
  case Nil
  then show ?case by (simp add: lookup_all_def)
next
  case (Cons p ps)
  obtain r s1 where step: "find_active_code_repository w s p = (r, s1)"
    by (cases "find_active_code_repository w s p")
  have l: "lookup_all w (p # ps) s = lookup_all w ps s1"
    using step by (simp add: lookup_all_def)
  from find_active_keeps_entries [OF step Cons.prems]
  have "CODE_REPOSITORY_CACHE s1 k = Some c" .
  from Cons.IH [OF this] find_active_frame [OF step] l show ?case by simp
qed

text \<open>
  C7. \<open>set_custom_local_repository\<close> stores the context under the absolute path of the
  source root. After it, and after any number of lookups for any paths, a lookup for that
  path (given as a path with the same absolute form, or left to default to the source
  root) returns the injected context and leaves the state as it is: nothing is added to
  the record of probes, so the repositories are neither listed nor asked for a working
  copy, whatever they would answer.
\<close>

theorem injected_context_served_from_cache:
  assumes inj: "set_custom_local_repository w s root' commit' repo = (Inr (), s1)"
    and src: "get_source_root w s = Inr source_root"
    and p: "\<not> truthy path \<or> abspath w (the path) = abspath w source_root"
  shows "find_active_code_repository w (lookup_all w paths s1) path
           = (Inr (Some (downloaded_repository_context w (repo_id repo) root' commit')),
              lookup_all w paths s1)
         \<and> probes (snd (find_active_code_repository w (lookup_all w paths s1) path))
             = probes (lookup_all w paths s1)"
proof -
  let ?c = "downloaded_repository_context w (repo_id repo) root' commit'"
  let ?k = "abspath w source_root"
  have s1: "s1 = s\<lparr>CODE_REPOSITORY_CACHE := (CODE_REPOSITORY_CACHE s)(?k \<mapsto> ?c)\<rparr>"
    using inj src by (simp add: set_custom_local_repository_def Let_def)
  then have c1: "CODE_REPOSITORY_CACHE s1 ?k = Some ?c" by simp
  note inv = lookup_all_inv [OF c1, of w paths]
  have "get_source_root w (lookup_all w paths s1) = get_source_root w s"
    by (rule get_source_root_cong) (use inv s1 in simp_all)
  with src p have "\<exists>q. (if truthy path then Inr (the path)
                       else get_source_root w (lookup_all w paths s1)) = Inr q
                    \<and> abspath w q = ?k"
    by auto
  then obtain q where q: "(if truthy path then Inr (the path)
                       else get_source_root w (lookup_all w paths s1)) = Inr q"
    and k: "abspath w q = ?k" by blast
  from inv k have "CODE_REPOSITORY_CACHE (lookup_all w paths s1) (abspath w q) = Some ?c"
    by simp
  from find_active_hit [OF q this] show ?thesis by simp
qed

text \<open>
  On the machine where \<open>r1\<close> has a working copy at \<open>/proj\<close>: after the injection the
  lookup returns the injected context and probes nothing; without it the same lookup
  lists the repositories, probes \<open>r1\<close> and returns the working copy's context.
\<close>

theorem injected_context_served_from_cache_witness:
  "fst (find_active_code_repository tracked_world injected_state (Some ''/proj''))
     = Inr (Some \<lparr>code_repository_id = ''R'', root = ''/r'', current_commit = ''abc123'',
                   is_dirty = False, has_local_changes = False\<rparr>)
   \<and> probes (snd (find_active_code_repository tracked_world injected_state (Some ''/proj''))) = []
   \<and> fst (find_active_code_repository tracked_world script_state (Some ''/proj''))
     = Inr (Some \<lparr>code_repository_id = ''r1'', root = ''/proj'', current_commit = ''c0ffee'',
                   is_dirty = False, has_local_changes = False\<rparr>)
   \<and> probes (snd (find_active_code_repository tracked_world script_state (Some ''/proj'')))
     = [ListCodeRepositories, GetLocalContext ''r1'' ''/proj'']"
proof -
  have root: "get_source_root tracked_world script_state = Inr ''/proj''"
    by code_simp
  have inj: "set_custom_local_repository tracked_world script_state ''/r'' ''abc123''
               \<lparr>repo_id = ''R''\<rparr> = (Inr (), injected_state)"
    by (simp add: injected_state_def set_custom_local_repository_def root)
  have p: "\<not> truthy (Some ''/proj'')
           \<or> abspath tracked_world (the (Some ''/proj'')) = abspath tracked_world ''/proj''"
    by simp
  have dl: "downloaded_repository_context tracked_world ''R'' ''/r'' ''abc123''
     = \<lparr>code_repository_id = ''R'', root = ''/r'', current_commit = ''abc123'',
                   is_dirty = False, has_local_changes = False\<rparr>"
    by (simp add: tracked_world_def ex_world_def)
  have pr: "probes injected_state = []"
    by code_simp
  have live: "fst (find_active_code_repository tracked_world script_state (Some ''/proj''))
     = Inr (Some \<lparr>code_repository_id = ''r1'', root = ''/proj'', current_commit = ''c0ffee'',
                   is_dirty = False, has_local_changes = False\<rparr>)
   \<and> probes (snd (find_active_code_repository tracked_world script_state (Some ''/proj'')))
     = [ListCodeRepositories, GetLocalContext ''r1'' ''/proj'']"
    by code_simp
  from injected_context_served_from_cache [OF inj root p, of "[]"] dl pr live
  show ?thesis by (simp add: lookup_all_def)
qed

section \<open>Properties: loading\<close>

lemma find_active_default_root:
  assumes "find_active_code_repository w s None = (Inr r, s1)"
  shows "\<exists>q. get_source_root w s = Inr q \<and> get_source_root w s1 = Inr q"
proof -
  from assms obtain q where q: "get_source_root w s = Inr q"
    by (cases "get_source_root w s") (auto simp: find_active_code_repository_def truthy_def)
  from find_active_frame [OF assms] have "get_source_root w s1 = get_source_root w s"
    by (intro get_source_root_cong) simp_all
  with q show ?thesis by simp
qed

lemma load_object_warnings: "fst (snd (load_object w s src ir ws)) = ws"
  by (simp add: load_object_def split: prod.splits sum.splits option.splits py_object.splits)

lemma warn_result:
  assumes "find_active_code_repository w s None = (Inr active, s1)"
  shows "warn_about_potential_source_loading_issues w s rid c
           = (Inr (first_holding (drift_conditions active rid c)), s1)"
proof -
  from find_active_default_root [OF assms] obtain q where "get_source_root w s1 = Inr q"
    by blast
  then show ?thesis using assms
    by (cases active)
       (simp_all add: warn_about_potential_source_loading_issues_def first_holding_def
          drift_conditions_def)
qed

lemma warn_at_most_one:
  assumes "warn_about_potential_source_loading_issues w s rid c = (Inr ws, s1)"
  shows "length ws \<le> 1"
  using assms
  by (auto simp: warn_about_potential_source_loading_issues_def
      split: prod.splits sum.splits option.splits if_splits)

text \<open>
  C10. Loading a code repository source logs at most one drift warning, whatever the
  outcome of the load. When the lookup of the active repository returns, the warnings
  logged are exactly the outcome of the first drift condition that holds, in the order
  no repository active, other repository, other commit, uncommitted changes; conditions
  after it log nothing.
\<close>

theorem at_most_one_drift_warning:
  assumes "src_type src = CODE_REPOSITORY"
  shows "length (fst (snd (load w s (Inr src)))) \<le> 1
         \<and> (src_payload src = CodeRepositoryPayload rid c subdir
              \<and> find_active_code_repository w s None = (Inr active, s1)
             \<longrightarrow> fst (snd (load w s (Inr src)))
                   = first_holding (drift_conditions active rid c))"
proof (intro conjI impI)
  show "length (fst (snd (load w s (Inr src)))) \<le> 1"
    using assms
    by (auto simp: load_def load_source_def load_object_warnings
             split: payload.splits prod.splits sum.splits dest: warn_at_most_one)
next
  assume a: "src_payload src = CodeRepositoryPayload rid c subdir
               \<and> find_active_code_repository w s None = (Inr active, s1)"
  from a find_active_default_root obtain q where "get_source_root w s1 = Inr q" by blast
  with a assms warn_result [of w s active s1 rid c]
  show "fst (snd (load w s (Inr src))) = first_holding (drift_conditions active rid c)"
    by (simp add: load_def load_source_def load_object_warnings)
qed

text \<open>
  A source of another repository and another commit, loaded where the working copy is
  dirty: three conditions hold, one warning is logged.
\<close>

theorem at_most_one_drift_warning_witness:
  "fst (snd (load dirty_world script_state
       (Inr (CodeRepositorySource ''other'' ''deadbeef'' ''.'' ''__main__'' (Some ''f'')))))
     = [DifferentRepositoryActive]"
proof -
  let ?src = "CodeRepositorySource ''other'' ''deadbeef'' ''.'' ''__main__'' (Some ''f'')"
  let ?c = "\<lparr>code_repository_id = ''r1'', root = ''/proj'', current_commit = ''c0ffee'',
             is_dirty = True, has_local_changes = True\<rparr>"
  have t: "src_type ?src = CODE_REPOSITORY"
    by (simp add: CodeRepositorySource_def)
  have p: "src_payload ?src = CodeRepositoryPayload ''other'' ''deadbeef'' ''.''"
    by (simp add: CodeRepositorySource_def)
  have "fst (find_active_code_repository dirty_world script_state None) = Inr (Some ?c)"
    by code_simp
  then have f: "find_active_code_repository dirty_world script_state None
      = (Inr (Some ?c), snd (find_active_code_repository dirty_world script_state None))"
    by (metis prod.collapse)
  have "first_holding (drift_conditions (Some ?c) ''other'' ''deadbeef'')
      = [DifferentRepositoryActive]"
    by (simp add: first_holding_def drift_conditions_def)
  with at_most_one_drift_warning [OF t, where w = dirty_world and s = script_state
      and rid = "''other''" and c = "''deadbeef''" and subdir = "''.''" and active = "Some ?c"
      and ?s1.0 = "snd (find_active_code_repository dirty_world script_state None)"] p f
  show ?thesis by simp
qed

lemma prepend_python_path_restores:
  assumes "sys_path (snd (body (s\<lparr>sys_path := path # sys_path s\<rparr>))) = path # sys_path s"
  shows "sys_path (snd (prepend_python_path path body s)) = sys_path s
         \<and> fst (prepend_python_path path body s) = fst (body (s\<lparr>sys_path := path # sys_path s\<rparr>))"
  using assms by (auto simp: prepend_python_path_def split: prod.splits)

lemma import_module_sys_path:
  assumes "import_keeps_sys_path w"
  shows "sys_path (snd (import_module w s n)) = sys_path s"
  using assms by (simp add: import_module_def import_keeps_sys_path_def split: option.splits)

lemma load_module_sys_path:
  assumes "import_keeps_sys_path w"
  shows "sys_path (snd (load_module w s n import_root)) = sys_path s"
proof (cases "truthy import_root")
  case True
  have "sys_path (snd (import_module w (s\<lparr>sys_path := the import_root # sys_path s\<rparr>) n))
          = the import_root # sys_path s"
    using import_module_sys_path [OF assms] by simp
  from prepend_python_path_restores [of "\<lambda>s'. import_module w s' n", OF this] True
  show ?thesis by (simp add: load_module_def)
next
  case False
  then show ?thesis using import_module_sys_path [OF assms] by (simp add: load_module_def)
qed

lemma load_object_state:
  "snd (snd (load_object w s src import_root ws)) = snd (load_module w s (src_module src) import_root)"
  by (simp add: load_object_def split: prod.splits sum.splits option.splits py_object.splits)

lemma load_object_sys_path:
  assumes "import_keeps_sys_path w"
  shows "sys_path (snd (snd (load_object w s src import_root ws))) = sys_path s"
  using load_module_sys_path [OF assms] by (simp add: load_object_state)

lemma warn_sys_path:
  assumes "warn_about_potential_source_loading_issues w s rid c = (r, s1)"
  shows "sys_path s1 = sys_path s"
proof -
  obtain r' s' where f: "find_active_code_repository w s None = (r', s')"
    by (cases "find_active_code_repository w s None")
  from find_active_frame [OF f] have "sys_path s' = sys_path s" by simp
  with f assms show ?thesis
    by (auto simp: warn_about_potential_source_loading_issues_def
        split: sum.splits option.splits if_splits)
qed

lemma load_source_sys_path:
  assumes k: "import_keeps_sys_path w"
  shows "sys_path (snd (snd (load_source w s src))) = sys_path s"
proof (cases "src_type src = CODE_REPOSITORY")
  case True
  show ?thesis
  proof (cases "src_payload src")
    case (CodeRepositoryPayload rid c subdir)
    obtain r s1 where wr: "warn_about_potential_source_loading_issues w s rid c = (r, s1)"
      by (cases "warn_about_potential_source_loading_issues w s rid c")
    note p = warn_sys_path [OF wr]
    show ?thesis
    proof (cases r)
      case (Inl e)
      with True CodeRepositoryPayload wr p show ?thesis by (simp add: load_source_def)
    next
      case (Inr ws)
      with True CodeRepositoryPayload wr p load_object_sys_path [OF k, of s1] show ?thesis
        by (cases "get_source_root w s1") (simp_all add: load_source_def)
    qed
  qed (use True in \<open>simp_all add: load_source_def\<close>)
next
  case False
  note nc = this
  show ?thesis
  proof (cases "src_type src = DISTRIBUTION_PACKAGE")
    case True
    with nc load_object_sys_path [OF k, of s] show ?thesis
      by (cases "src_payload src") (simp_all add: load_source_def)
  next
    case False
    with nc load_object_sys_path [OF k, of s] show ?thesis
      by (cases "get_source_root w s") (simp_all add: load_source_def)
  qed
qed

text \<open>
  What \<open>load_module\<close> does with an import root: the import runs in the state whose
  search path has the root in front, and afterwards the first occurrence of the root is
  removed; when the import has taken the root off the path, the removal raises.
\<close>

lemma load_module_state:
  assumes "r \<noteq> []"
  shows "snd (load_module w s n (Some r))
           = (let s2 = snd (import_module w (s\<lparr>sys_path := r # sys_path s\<rparr>) n)
              in if r \<in> set (sys_path s2) then s2\<lparr>sys_path := remove1 r (sys_path s2)\<rparr>
                 else s2)
         \<and> (r \<notin> set (sys_path (snd (import_module w (s\<lparr>sys_path := r # sys_path s\<rparr>) n)))
              \<longrightarrow> fst (load_module w s n (Some r)) = Inl ValueError)"
  using assms
  by (auto simp: load_module_def truthy_def prepend_python_path_def Let_def split: prod.splits)

lemma load_object_error:
  assumes "fst (load_module w s (src_module src) import_root) = Inl e"
  shows "fst (load_object w s src import_root ws) = Inl e"
  using assms by (auto simp: load_object_def split: prod.splits sum.splits)

text \<open>
  C6, as the code has it. For internal and builtin sources the state after \<open>load\<close> is
  the state after the plain import in the state \<open>load\<close> was called in: nothing is
  prepended and nothing removed. For user and unknown sources, and for code repository
  sources after the drift check, the import runs with the source root in front of the
  search path, and when it returns or raises the first occurrence of the source root is
  removed again; an import that has itself removed the root makes \<open>load\<close> raise
  \<open>ValueError\<close>. So the search path after \<open>load\<close> is the search path before it, for
  every argument and every outcome, provided the import system leaves the search path
  alone.
\<close>

theorem load_restores_sys_path:
  "(import_keeps_sys_path w \<longrightarrow> sys_path (snd (snd (load w s arg))) = sys_path s)
   \<and> (src_type src \<in> {INTERNAL, BUILTIN} \<longrightarrow>
        snd (snd (load w s (Inr src))) = snd (import_module w s (src_module src)))
   \<and> (src_type src \<in> {USER, UNKNOWN} \<and> get_source_root w s = Inr r \<and> r \<noteq> [] \<longrightarrow>
        snd (snd (load w s (Inr src)))
          = (let s2 = snd (import_module w (s\<lparr>sys_path := r # sys_path s\<rparr>) (src_module src))
             in if r \<in> set (sys_path s2) then s2\<lparr>sys_path := remove1 r (sys_path s2)\<rparr>
                else s2)
        \<and> (r \<notin> set (sys_path
                     (snd (import_module w (s\<lparr>sys_path := r # sys_path s\<rparr>) (src_module src))))
             \<longrightarrow> fst (load w s (Inr src)) = Inl ValueError))
   \<and> (src_type src = CODE_REPOSITORY \<and> src_payload src = CodeRepositoryPayload rid c subdir
        \<and> warn_about_potential_source_loading_issues w s rid c = (Inr ws, s1)
        \<and> get_source_root w s1 = Inr r \<and> r \<noteq> [] \<longrightarrow>
        snd (snd (load w s (Inr src)))
          = (let s2 = snd (import_module w (s1\<lparr>sys_path := r # sys_path s1\<rparr>) (src_module src))
             in if r \<in> set (sys_path s2) then s2\<lparr>sys_path := remove1 r (sys_path s2)\<rparr>
                else s2)
        \<and> (r \<notin> set (sys_path
                     (snd (import_module w (s1\<lparr>sys_path := r # sys_path s1\<rparr>) (src_module src))))
             \<longrightarrow> fst (load w s (Inr src)) = Inl ValueError))"
proof (intro conjI impI)
  assume "import_keeps_sys_path w"
  from load_source_sys_path [OF this] show "sys_path (snd (snd (load w s arg))) = sys_path s"
    by (simp add: load_def split: sum.splits)
next
  assume "src_type src \<in> {INTERNAL, BUILTIN}"
  then have "load_source w s src = load_object w s src None []"
    by (auto simp: load_source_def)
  then show "snd (snd (load w s (Inr src))) = snd (import_module w s (src_module src))"
    by (simp add: load_def load_object_state load_module_def truthy_def)
next
  assume a: "src_type src \<in> {USER, UNKNOWN} \<and> get_source_root w s = Inr r \<and> r \<noteq> []"
  then have l: "load w s (Inr src) = load_object w s src (Some r) []"
    by (auto simp: load_def load_source_def)
  from a have ne: "r \<noteq> []" by simp
  note lm = load_module_state [OF ne, of w s "src_module src"]
  show "snd (snd (load w s (Inr src)))
          = (let s2 = snd (import_module w (s\<lparr>sys_path := r # sys_path s\<rparr>) (src_module src))
             in if r \<in> set (sys_path s2) then s2\<lparr>sys_path := remove1 r (sys_path s2)\<rparr>
                else s2)"
    unfolding l load_object_state using lm by simp
  assume "r \<notin> set (sys_path
                     (snd (import_module w (s\<lparr>sys_path := r # sys_path s\<rparr>) (src_module src))))"
  with lm have "fst (load_module w s (src_module src) (Some r)) = Inl ValueError" by simp
  from load_object_error [OF this] show "fst (load w s (Inr src)) = Inl ValueError"
    unfolding l .
next
  assume a: "src_type src = CODE_REPOSITORY \<and> src_payload src = CodeRepositoryPayload rid c subdir
        \<and> warn_about_potential_source_loading_issues w s rid c = (Inr ws, s1)
        \<and> get_source_root w s1 = Inr r \<and> r \<noteq> []"
  then have l: "load w s (Inr src) = load_object w s1 src (Some r) ws"
    by (simp add: load_def load_source_def)
  from a have ne: "r \<noteq> []" by simp
  note lm = load_module_state [OF ne, of w s1 "src_module src"]
  show "snd (snd (load w s (Inr src)))
          = (let s2 = snd (import_module w (s1\<lparr>sys_path := r # sys_path s1\<rparr>) (src_module src))
             in if r \<in> set (sys_path s2) then s2\<lparr>sys_path := remove1 r (sys_path s2)\<rparr>
                else s2)"
    unfolding l load_object_state using lm by simp
  assume "r \<notin> set (sys_path
                     (snd (import_module w (s1\<lparr>sys_path := r # sys_path s1\<rparr>) (src_module src))))"
  with lm have "fst (load_module w s1 (src_module src) (Some r)) = Inl ValueError" by simp
  from load_object_error [OF this] show "fst (load w s (Inr src)) = Inl ValueError"
    unfolding l .
qed

text \<open>
  On the script's machine: the user source \<open>run.f\<close> is imported with \<open>/proj\<close> prepended
  and the path is as before; the import of a missing module raises and the path is as
  before; the same source marked internal is imported without \<open>/proj\<close> and is not found;
  marked unknown, or as a code repository source, it is imported with \<open>/proj\<close> prepended
  and the module \<open>run\<close> is loaded.
\<close>

theorem load_restores_sys_path_witness:
  "fst (load script_world script_state (Inr (Source ''run'' (Some ''f'') USER))) = Inr 3
   \<and> sys_path (snd (snd (load script_world script_state (Inr (Source ''run'' (Some ''f'') USER)))))
       = [''/usr/lib/python3.8'']
   \<and> fst (load script_world script_state (Inr (Source ''missing'' None UNKNOWN)))
       = Inl ModuleNotFoundError
   \<and> sys_path (snd (snd (load script_world script_state (Inr (Source ''missing'' None UNKNOWN)))))
       = [''/usr/lib/python3.8'']
   \<and> fst (load script_world script_state (Inr (Source ''run'' (Some ''f'') INTERNAL)))
       = Inl ModuleNotFoundError
   \<and> snd (snd (load script_world script_state (Inr (Source ''run'' (Some ''f'') INTERNAL))))
       = script_state
   \<and> sys_modules (snd (snd (load script_world script_state
                               (Inr (Source ''run'' (Some ''f'') UNKNOWN))))) ''run'' = Some 2
   \<and> sys_modules (snd (snd (load script_world script_state
          (Inr (CodeRepositorySource ''r1'' ''c0ffee'' ''.'' ''run'' (Some ''f'')))))) ''run''
       = Some 2"
proof -
  let ?unknown = "Source ''run'' (Some ''f'') UNKNOWN"
  let ?repo = "CodeRepositorySource ''r1'' ''c0ffee'' ''.'' ''run'' (Some ''f'')"
  let ?s1 = "snd (warn_about_potential_source_loading_issues script_world script_state
                    ''r1'' ''c0ffee'')"
  have k: "import_keeps_sys_path script_world"
    by (simp add: import_keeps_sys_path_def script_world_def import_run_script_def)
  have p: "sys_path script_state = [''/usr/lib/python3.8'']"
    by (simp add: script_state_def)
  have i: "src_type (Source ''run'' (Some ''f'') INTERNAL) \<in> {INTERNAL, BUILTIN}"
    by (simp add: Source_def)
  have m: "snd (import_module script_world script_state
                  (src_module (Source ''run'' (Some ''f'') INTERNAL))) = script_state"
    by (simp add: import_module_def Source_def script_world_def import_run_script_def
          script_state_def)
  have r1: "fst (load script_world script_state (Inr (Source ''run'' (Some ''f'') USER))) = Inr 3"
    by code_simp
  have r2: "fst (load script_world script_state (Inr (Source ''missing'' None UNKNOWN)))
       = Inl ModuleNotFoundError"
    by code_simp
  have r3: "fst (load script_world script_state (Inr (Source ''run'' (Some ''f'') INTERNAL)))
       = Inl ModuleNotFoundError"
    by code_simp
  have first: "fst (load script_world script_state (Inr (Source ''run'' (Some ''f'') USER))) = Inr 3
   \<and> sys_path (snd (snd (load script_world script_state (Inr (Source ''run'' (Some ''f'') USER)))))
       = [''/usr/lib/python3.8'']
   \<and> fst (load script_world script_state (Inr (Source ''missing'' None UNKNOWN)))
       = Inl ModuleNotFoundError
   \<and> sys_path (snd (snd (load script_world script_state (Inr (Source ''missing'' None UNKNOWN)))))
       = [''/usr/lib/python3.8'']
   \<and> fst (load script_world script_state (Inr (Source ''run'' (Some ''f'') INTERNAL)))
       = Inl ModuleNotFoundError
   \<and> snd (snd (load script_world script_state (Inr (Source ''run'' (Some ''f'') INTERNAL))))
       = script_state"
    using load_restores_sys_path [of script_world script_state
         "Inr (Source ''run'' (Some ''f'') USER)" "Source ''run'' (Some ''f'') INTERNAL"]
       load_restores_sys_path [of script_world script_state
         "Inr (Source ''missing'' None UNKNOWN)" "Source ''run'' (Some ''f'') INTERNAL"]
       k p i m r1 r2 r3
    by (simp add: Source_def)
  have tu: "src_type ?unknown \<in> {USER, UNKNOWN}"
    by (simp add: Source_def)
  have root: "get_source_root script_world script_state = Inr ''/proj''"
    by code_simp
  have eu: "sys_modules
      (let s2 = snd (import_module script_world
                       (script_state\<lparr>sys_path := ''/proj'' # sys_path script_state\<rparr>)
                       (src_module ?unknown))
       in if ''/proj'' \<in> set (sys_path s2)
          then s2\<lparr>sys_path := remove1 ''/proj'' (sys_path s2)\<rparr> else s2) ''run'' = Some 2"
    by code_simp
  have su: "snd (snd (load script_world script_state (Inr ?unknown)))
      = (let s2 = snd (import_module script_world
                       (script_state\<lparr>sys_path := ''/proj'' # sys_path script_state\<rparr>)
                       (src_module ?unknown))
       in if ''/proj'' \<in> set (sys_path s2)
          then s2\<lparr>sys_path := remove1 ''/proj'' (sys_path s2)\<rparr> else s2)"
    using load_restores_sys_path
      [where w = script_world and s = script_state and src = ?unknown and r = "''/proj''",
       THEN conjunct2, THEN conjunct2, THEN conjunct1]
      tu root
    by blast
  have unknown: "sys_modules (snd (snd (load script_world script_state (Inr ?unknown)))) ''run''
                   = Some 2"
    unfolding su by (rule eu)
  have tr: "src_type ?repo = CODE_REPOSITORY"
    and pr: "src_payload ?repo = CodeRepositoryPayload ''r1'' ''c0ffee'' ''.''"
    by (simp_all add: CodeRepositorySource_def)
  have "fst (warn_about_potential_source_loading_issues script_world script_state
               ''r1'' ''c0ffee'') = Inr []"
    by code_simp
  then have wr: "warn_about_potential_source_loading_issues script_world script_state
               ''r1'' ''c0ffee'' = (Inr [], ?s1)"
    by (metis prod.collapse)
  have root1: "get_source_root script_world ?s1 = Inr ''/proj''"
    by code_simp
  have er: "sys_modules
      (let s2 = snd (import_module script_world (?s1\<lparr>sys_path := ''/proj'' # sys_path ?s1\<rparr>)
                       (src_module ?repo))
       in if ''/proj'' \<in> set (sys_path s2)
          then s2\<lparr>sys_path := remove1 ''/proj'' (sys_path s2)\<rparr> else s2) ''run'' = Some 2"
    by code_simp
  have sr: "snd (snd (load script_world script_state (Inr ?repo)))
      = (let s2 = snd (import_module script_world (?s1\<lparr>sys_path := ''/proj'' # sys_path ?s1\<rparr>)
                       (src_module ?repo))
       in if ''/proj'' \<in> set (sys_path s2)
          then s2\<lparr>sys_path := remove1 ''/proj'' (sys_path s2)\<rparr> else s2)"
    using load_restores_sys_path
      [where w = script_world and s = script_state and src = ?repo and r = "''/proj''"
         and rid = "''r1''" and c = "''c0ffee''" and subdir = "''.''" and ws = "[]"
         and ?s1.0 = ?s1,
       THEN conjunct2, THEN conjunct2, THEN conjunct2]
      tr pr wr root1
    by blast
  have repo: "sys_modules (snd (snd (load script_world script_state (Inr ?repo)))) ''run''
                = Some 2"
    unfolding sr by (rule er)
  from first unknown repo show ?thesis by blast
qed

text \<open>
  Where the module that is imported appends a directory to the search path, the import
  succeeds and the search path after \<open>load\<close> is not the one before it.
\<close>

theorem import_that_appends_leaves_path_changed:
  "sys_path script_state = [''/usr/lib/python3.8'']
   \<and> fst (load appending_world script_state (Inr (Source ''run'' (Some ''f'') USER))) = Inr 3
   \<and> sys_path (snd (snd (load appending_world script_state
                            (Inr (Source ''run'' (Some ''f'') USER)))))
       = [''/usr/lib/python3.8'', ''/proj/vendor'']"
proof -
  have "sys_path script_state = [''/usr/lib/python3.8'']"
    by (simp add: script_state_def)
  moreover have "fst (load appending_world script_state
                        (Inr (Source ''run'' (Some ''f'') USER))) = Inr 3"
    by code_simp
  moreover have "sys_path (snd (snd (load appending_world script_state
                            (Inr (Source ''run'' (Some ''f'') USER)))))
       = [''/usr/lib/python3.8'', ''/proj/vendor'']"
    by code_simp
  ultimately show ?thesis by blast
qed

section \<open>Properties: classifying a module\<close>

text \<open>
  C3, as the code has it. When the source root can be determined, \<open>get_source_type\<close>
  returns exactly one classification, that of the first rule that holds in the order
  no file, framework package, standard library, under the source root, site-packages or
  distribution, unknown. When it cannot, the first three rules still decide; a module that
  none of them matches is not classified: the error of \<open>get_source_root\<close> comes back.
  In particular a module with a file, outside the framework and the standard library,
  whose file lives under the source root and under a site-packages directory is a user
  module.
\<close>

theorem classification_follows_priority:
  "(get_source_root w s = Inr r \<longrightarrow>
      (\<exists>c. first_holding (classification_rules w m r) = [c] \<and> get_source_type w s m = Inr c))
   \<and> (get_source_root w s = Inl e \<longrightarrow>
        get_source_type w s m
          = (case first_holding (take 3 (classification_rules w m r)) of
               [] \<Rightarrow> Inl e | c # _ \<Rightarrow> Inr c))
   \<and> (get_source_root w s = Inr r \<and> truthy (mod_file m)
        \<and> top_level_name (mod_name m) \<noteq> ''zenml''
        \<and> \<not> lives_under w (the (mod_file m)) (PurePath (fs_resolve w (stdlib_root w)))
        \<and> lives_under w (the (mod_file m)) (PurePath r)
        \<and> d \<in> set (site_packages w)
        \<and> lives_under w (the (mod_file m)) (PurePath (fs_resolve w d))
       \<longrightarrow> get_source_type w s m = Inr USER)"
proof -
  let ?f = "the (mod_file m)"
  let ?site = "(\<exists>d \<in> set (site_packages w). lives_under w ?f (PurePath (fs_resolve w d)))
               \<or> truthy (get_package_for_module w (mod_name m))"
  have dist: "is_distribution_package_file w ?f (mod_name m) = ?site"
    by (simp add: is_distribution_package_file_def lives_under_def Let_def)
  have code: "get_source_type w s m =
     (if \<not> truthy (mod_file m) then Inr BUILTIN
      else if top_level_name (mod_name m) = ''zenml'' then Inr INTERNAL
      else if lives_under w ?f (PurePath (fs_resolve w (stdlib_root w))) then Inr BUILTIN
      else case get_source_root w s of
             Inl e \<Rightarrow> Inl e
           | Inr r \<Rightarrow> Inr (if lives_under w ?f (PurePath r) then USER
                          else if ?site then DISTRIBUTION_PACKAGE else UNKNOWN))"
    unfolding get_source_type_def Let_def dist is_internal_module_def
      is_standard_lib_file_def is_user_file_def lives_under_def
    by (auto split: sum.splits)
  have a: "get_source_root w s = Inr r \<longrightarrow>
      (\<exists>c. first_holding (classification_rules w m r) = [c] \<and> get_source_type w s m = Inr c)"
    unfolding code by (simp add: first_holding_def classification_rules_def)
  have b: "get_source_root w s = Inl e \<longrightarrow>
        get_source_type w s m
          = (case first_holding (take 3 (classification_rules w m r)) of
               [] \<Rightarrow> Inl e | c # _ \<Rightarrow> Inr c)"
    unfolding code by (simp add: first_holding_def classification_rules_def)
  have c: "get_source_root w s = Inr r \<and> truthy (mod_file m)
        \<and> top_level_name (mod_name m) \<noteq> ''zenml''
        \<and> \<not> lives_under w (the (mod_file m)) (PurePath (fs_resolve w (stdlib_root w)))
        \<and> lives_under w (the (mod_file m)) (PurePath r)
        \<and> d \<in> set (site_packages w)
        \<and> lives_under w (the (mod_file m)) (PurePath (fs_resolve w d))
       \<longrightarrow> get_source_type w s m = Inr USER"
    unfolding code by simp
  from a b c show ?thesis by blast
qed

text \<open>
  The module installed in the virtual environment inside \<open>/proj\<close> is a user module; an
  installed module outside the source root is a distribution package; in an interactive
  session a module without a file is still classified, as builtin.
\<close>

theorem classification_follows_priority_witness:
  "get_source_type nested_venv_world script_state venv_module = Inr USER
   \<and> get_source_type ex_world script_state numpy_module = Inr DISTRIBUTION_PACKAGE
   \<and> get_source_type ex_world interactive_state
         \<lparr>mod_name = ''sys'', mod_file = None, mod_attrs = Map.empty\<rparr> = Inr BUILTIN"
proof -
  let ?sys = "\<lparr>mod_name = ''sys'', mod_file = None, mod_attrs = Map.empty\<rparr>"
  have "get_source_root nested_venv_world script_state = Inr ''/proj''"
    by code_simp
  moreover have "truthy (mod_file venv_module)"
    by (simp add: venv_module_def truthy_def)
  moreover have "top_level_name (mod_name venv_module) \<noteq> ''zenml''"
    by (simp add: venv_module_def top_level_name_def)
  moreover have "\<not> lives_under nested_venv_world (the (mod_file venv_module))
      (PurePath (fs_resolve nested_venv_world (stdlib_root nested_venv_world)))"
    by code_simp
  moreover have "lives_under nested_venv_world (the (mod_file venv_module)) (PurePath ''/proj'')"
    by code_simp
  moreover have "''/proj/venv/lib/python3.8/site-packages'' \<in> set (site_packages nested_venv_world)"
    by (simp add: nested_venv_world_def)
  moreover have "lives_under nested_venv_world (the (mod_file venv_module))
      (PurePath (fs_resolve nested_venv_world ''/proj/venv/lib/python3.8/site-packages''))"
    by code_simp
  ultimately have user: "get_source_type nested_venv_world script_state venv_module = Inr USER"
    using classification_follows_priority
      [where w = nested_venv_world and s = script_state and m = venv_module
         and r = "''/proj''" and d = "''/proj/venv/lib/python3.8/site-packages''"]
    by blast
  have r1: "get_source_root ex_world script_state = Inr ''/proj''"
    by code_simp
  have f1: "first_holding (classification_rules ex_world numpy_module ''/proj'')
              = [DISTRIBUTION_PACKAGE]"
    by code_simp
  have dist: "get_source_type ex_world script_state numpy_module = Inr DISTRIBUTION_PACKAGE"
    using classification_follows_priority
      [where w = ex_world and s = script_state and m = numpy_module and r = "''/proj''"]
      r1 f1
    by auto
  have r2: "get_source_root ex_world interactive_state = Inl (RuntimeError MainModuleHasNoFile)"
    by code_simp
  have f2: "first_holding (take 3 (classification_rules ex_world ?sys ''/proj'')) = [BUILTIN]"
    by (simp add: first_holding_def classification_rules_def truthy_def)
  have builtin: "get_source_type ex_world interactive_state ?sys = Inr BUILTIN"
    using classification_follows_priority
      [where w = ex_world and s = interactive_state and m = ?sys and r = "''/proj''"
         and e = "RuntimeError MainModuleHasNoFile"]
      r2 f2
    by simp
  from user dist builtin show ?thesis by blast
qed

text \<open>
  In an interactive session without override and repository, an installed module gets no
  classification: rule 4 asks for the source root, which cannot be derived.
\<close>

theorem classification_not_total:
  "get_source_type ex_world interactive_state numpy_module
     = Inl (RuntimeError MainModuleHasNoFile)"
  by code_simp

section \<open>Properties: resolving\<close>

lemma resolve_unfold:
  assumes "module_and_attribute s obj = Some (m, a)"
  shows "resolve w s obj = resolve_in w s obj m a"
  using assms
  by (auto simp: module_and_attribute_def resolve_def
      split: option.splits py_object.splits)

lemma resolve_module_cong:
  assumes "heap s' = heap s" "sys_modules s' = sys_modules s"
    "CUSTOM_SOURCE_ROOT s' = CUSTOM_SOURCE_ROOT s"
  shows "resolve_module w s' m = resolve_module w s m"
  using get_source_root_cong [OF assms, of w] by (simp add: resolve_module_def)

text \<open>
  A class or function with a non-empty name that is not the attribute of that name in its
  module is rejected, in every state and on every machine.
\<close>

lemma resolve_rejects_unreachable:
  assumes "heap s obj = Some (Definition d)" and "def_name d \<noteq> []"
    and "sys_modules s (def_module d) = Some mr" and "heap s mr = Some (Module m)"
    and "mod_attrs m (def_name d) \<noteq> Some obj"
  shows "resolve w s obj = (Inl (RuntimeError NotTopLevel), s)"
  using assms by (simp add: resolve_def resolve_in_def truthy_def)

lemma nested_function_rejected:
  "resolve ex_world project_state 3 = (Inl (RuntimeError NotTopLevel), project_state)"
  by (rule resolve_rejects_unreachable
        [where mr = 1 and m = helpers_module
           and d = "\<lparr>def_module = ''helpers'', def_name = ''inner''\<rparr>"])
     (simp_all add: project_state_def helpers_module_def)

text \<open>
  C2 fails for an object whose name is empty. The top-level check is guarded by the truth
  value of the attribute name, which is false for the empty string as it is for the
  \<open>None\<close> of a module, so the check is skipped: \<open>resolve\<close> returns a descriptor for the
  class of \<open>helpers\<close> that no attribute of the module holds, and loading that
  descriptor gives the module \<open>helpers\<close> (object 1), not the class (object 4).
\<close>

theorem unnamed_object_resolves:
  "module_and_attribute project_state 4 = Some (helpers_module, Some [])
   \<and> mod_attrs helpers_module [] = None
   \<and> fst (resolve ex_world project_state 4) = Inr (Source ''helpers'' (Some []) USER)
   \<and> fst (load ex_world project_state (Inr (Source ''helpers'' (Some []) USER))) = Inr 1"
proof -
  have "module_and_attribute project_state 4 = Some (helpers_module, Some [])"
    by (simp add: module_and_attribute_def project_state_def)
  moreover have "mod_attrs helpers_module [] = None"
    by (simp add: helpers_module_def)
  moreover have "fst (resolve ex_world project_state 4) = Inr (Source ''helpers'' (Some []) USER)"
    by code_simp
  moreover have "fst (load ex_world project_state (Inr (Source ''helpers'' (Some []) USER))) = Inr 1"
    by code_simp
  ultimately show ?thesis by blast
qed

lemma find_active_again:
  assumes "find_active_code_repository w s None = (Inr (Some c), s1)"
  shows "find_active_code_repository w s1 None = (Inr (Some c), s1)"
proof -
  from find_active_default_root [OF assms] obtain q
    where q: "get_source_root w s = Inr q" and q1: "get_source_root w s1 = Inr q" by blast
  have "CODE_REPOSITORY_CACHE s1 (abspath w q) = Some c"
    using assms q
    by (auto simp: find_active_code_repository_def truthy_def Let_def
        split: option.splits prod.splits)
  with q1 show ?thesis by (simp add: find_active_code_repository_def truthy_def)
qed

text \<open>
  C4, as the code has it, for an object whose module is classified as user code. When no
  repository is active at the source root, or the active one has local changes,
  \<open>resolve\<close> never returns a code repository source: it raises for an object that fails
  the top-level check or whose module path cannot be re-derived, and otherwise returns the
  plain source of the re-derived module path, of type user, without payload. A code
  repository source is returned only when a repository is active and has no local
  changes, and then it carries the repository id, the commit and the POSIX path of the
  source root relative to the repository root.
\<close>

theorem user_source_without_clean_repository:
  assumes "module_and_attribute s obj = Some (m, a)"
    and "get_source_type w s m = Inr USER"
    and "find_active_code_repository w s None = (Inr active, s1)"
  shows "(active = None \<or> has_local_changes (the active) \<longrightarrow>
            fst (resolve w s obj)
              = (if fails_top_level_check m a obj then Inl (RuntimeError NotTopLevel)
                 else case resolve_module w s m of
                        Inl e \<Rightarrow> Inl e
                      | Inr module_name \<Rightarrow> Inr (Source module_name a USER)))
         \<and> (fst (resolve w s obj) = Inr src \<and> src_type src = CODE_REPOSITORY \<longrightarrow>
              (\<exists>c r subdir. active = Some c \<and> \<not> has_local_changes c
                 \<and> get_source_root w s = Inr r
                 \<and> relative_to (PurePath r) (PurePath (root c)) = Inr subdir
                 \<and> src_payload src
                     = CodeRepositoryPayload (code_repository_id c) (current_commit c)
                         (as_posix subdir)))"
proof -
  note fr = find_active_frame [OF assms(3)]
  have rm: "resolve_module w s1 m = resolve_module w s m"
    by (rule resolve_module_cong) (use fr in simp_all)
  have gr: "get_source_root w s1 = get_source_root w s"
    by (rule get_source_root_cong) (use fr in simp_all)
  have r: "resolve w s obj = resolve_in w s obj m a"
    by (rule resolve_unfold [OF assms(1)])
  show ?thesis
  proof (cases "fails_top_level_check m a obj")
    case True
    then show ?thesis
      unfolding r by (auto simp: resolve_in_def fails_top_level_check_def)
  next
    case False
    note top = this
    show ?thesis
    proof (cases "resolve_module w s m")
      case (Inl e)
      with top assms(2,3) rm show ?thesis
        unfolding r by (auto simp: resolve_in_def fails_top_level_check_def)
    next
      case (Inr mn)
      show ?thesis
      proof (cases "active = None \<or> has_local_changes (the active)")
        case True
        with top assms(2,3) rm Inr show ?thesis
          unfolding r
          by (auto simp: resolve_in_def fails_top_level_check_def Source_def)
      next
        case False
        then obtain c where c: "active = Some c" "\<not> has_local_changes c" by auto
        show ?thesis
        proof (cases "get_source_root w s")
          case (Inl e)
          with top assms(2,3) rm gr Inr c show ?thesis
            unfolding r by (auto simp: resolve_in_def fails_top_level_check_def)
        next
          case root: (Inr q)
          show ?thesis
          proof (cases "relative_to (PurePath q) (PurePath (root c))")
            case (Inl e)
            with top assms(2,3) rm gr Inr c root show ?thesis
              unfolding r by (auto simp: resolve_in_def fails_top_level_check_def)
          next
            case sub: (Inr subdir)
            with top assms(2,3) rm gr Inr c root show ?thesis
              unfolding r
              by (cases subdir)
                 (auto simp: resolve_in_def fails_top_level_check_def CodeRepositorySource_def)
          qed
        qed
      qed
    qed
  qed
qed

text \<open>
  The function \<open>f\<close> of \<open>helpers\<close> resolves to a plain user source where the working
  copy is dirty and where no repository is registered, and to a code repository source
  where the working copy is clean.
\<close>

theorem user_source_without_clean_repository_witness:
  "fst (resolve dirty_world project_state 2) = Inr (Source ''helpers'' (Some ''f'') USER)
   \<and> fst (resolve ex_world project_state 2) = Inr (Source ''helpers'' (Some ''f'') USER)
   \<and> fst (resolve tracked_world project_state 2)
       = Inr (CodeRepositorySource ''r1'' ''c0ffee'' ''.'' ''helpers'' (Some ''f''))
   \<and> (\<exists>c. fst (find_active_code_repository tracked_world project_state None) = Inr (Some c)
          \<and> \<not> has_local_changes c)"
proof -
  let ?c = "\<lparr>code_repository_id = ''r1'', root = ''/proj'', current_commit = ''c0ffee'',
             is_dirty = True, has_local_changes = True\<rparr>"
  let ?src = "CodeRepositorySource ''r1'' ''c0ffee'' ''.'' ''helpers'' (Some ''f'')"
  have ma: "module_and_attribute project_state 2 = Some (helpers_module, Some ''f'')"
    by (simp add: module_and_attribute_def project_state_def)
  have top: "\<not> fails_top_level_check helpers_module (Some ''f'') 2"
    by (simp add: fails_top_level_check_def helpers_module_def)
  have u1: "get_source_type dirty_world project_state helpers_module = Inr USER"
    by code_simp
  have u2: "get_source_type ex_world project_state helpers_module = Inr USER"
    by code_simp
  have u3: "get_source_type tracked_world project_state helpers_module = Inr USER"
    by code_simp
  have "fst (find_active_code_repository dirty_world project_state None) = Inr (Some ?c)"
    by code_simp
  then have f1: "find_active_code_repository dirty_world project_state None
      = (Inr (Some ?c), snd (find_active_code_repository dirty_world project_state None))"
    by (metis prod.collapse)
  have "fst (find_active_code_repository ex_world project_state None) = Inr None"
    by code_simp
  then have f2: "find_active_code_repository ex_world project_state None
      = (Inr None, snd (find_active_code_repository ex_world project_state None))"
    by (metis prod.collapse)
  have fc3: "fst (find_active_code_repository tracked_world project_state None)
          = Inr (Some (?c\<lparr>is_dirty := False, has_local_changes := False\<rparr>))"
    by code_simp
  then have f3: "find_active_code_repository tracked_world project_state None
      = (Inr (Some (?c\<lparr>is_dirty := False, has_local_changes := False\<rparr>)),
         snd (find_active_code_repository tracked_world project_state None))"
    by (metis prod.collapse)
  have m1: "resolve_module dirty_world project_state helpers_module = Inr ''helpers''"
    by code_simp
  have m2: "resolve_module ex_world project_state helpers_module = Inr ''helpers''"
    by code_simp
  have r3: "fst (resolve tracked_world project_state 2) = Inr ?src"
    by code_simp
  have t3: "src_type ?src = CODE_REPOSITORY"
    by (simp add: CodeRepositorySource_def)
  from user_source_without_clean_repository [OF ma u1 f1] top m1
  have "fst (resolve dirty_world project_state 2) = Inr (Source ''helpers'' (Some ''f'') USER)"
    by simp
  moreover from user_source_without_clean_repository [OF ma u2 f2] top m2
  have "fst (resolve ex_world project_state 2) = Inr (Source ''helpers'' (Some ''f'') USER)"
    by simp
  moreover from user_source_without_clean_repository [OF ma u3 f3, where src = ?src] r3 t3
  have "\<exists>c. fst (find_active_code_repository tracked_world project_state None) = Inr (Some c)
          \<and> \<not> has_local_changes c"
    unfolding fc3 by auto
  ultimately show ?thesis using r3 by blast
qed

text \<open>
  The function \<open>g\<close> of the compiled module \<open>/proj/fast.so\<close> is a top-level attribute of
  a user module and no repository is active, yet \<open>resolve\<close> returns no descriptor: the
  module path cannot be re-derived from a file that is not a \<open>.py\<close> file.
\<close>

theorem user_extension_module_not_resolved:
  "module_and_attribute project_state 6 = Some (fast_module, Some ''g'')
   \<and> mod_attrs fast_module ''g'' = Some 6
   \<and> get_source_type ex_world project_state fast_module = Inr USER
   \<and> fst (find_active_code_repository ex_world project_state None) = Inr None
   \<and> fst (resolve ex_world project_state 6) = Inl (RuntimeError NotPythonFile)"
proof -
  have "module_and_attribute project_state 6 = Some (fast_module, Some ''g'')"
    by (simp add: module_and_attribute_def project_state_def)
  moreover have "mod_attrs fast_module ''g'' = Some 6"
    by (simp add: fast_module_def)
  moreover have "get_source_type ex_world project_state fast_module = Inr USER"
    by code_simp
  moreover have "fst (find_active_code_repository ex_world project_state None) = Inr None"
    by code_simp
  moreover have "fst (resolve ex_world project_state 6) = Inl (RuntimeError NotPythonFile)"
    by code_simp
  ultimately show ?thesis by blast
qed

text \<open>
  C5, as the code has it, for an object that passes the top-level check and whose module
  is classified as a distribution package, with the module name that \<open>resolve\<close> works
  with (the re-derived path for the entry-point module, the module's own name otherwise).
  When exactly one distribution owns the top-level name, \<open>resolve\<close> returns the
  distribution package source with that package and the installed version, \<open>None\<close> when
  the version lookup fails. When no distribution or more than one owns it, \<open>resolve\<close>
  returns a plain source of type unknown. The state is unchanged.
\<close>

theorem distribution_package_source:
  assumes "module_and_attribute s obj = Some (m, a)"
    and "\<not> fails_top_level_check m a obj"
    and "(if mod_name m = ''__main__'' then resolve_module w s m else Inr (mod_name m))
           = Inr module_name"
    and "get_source_type w s m = Inr DISTRIBUTION_PACKAGE"
  shows "(owners w module_name = [p] \<and> p \<noteq> [] \<longrightarrow>
            resolve w s obj
              = (Inr (DistributionPackageSource module_name a p (version w p)
                        DISTRIBUTION_PACKAGE), s))
         \<and> (length (owners w module_name) \<noteq> 1 \<longrightarrow>
              resolve w s obj = (Inr (Source module_name a UNKNOWN), s))"
  using assms(2-4) unfolding resolve_unfold [OF assms(1)]
  by (auto simp: resolve_in_def fails_top_level_check_def get_package_for_module_def
        get_package_version_def owners_def truthy_def Let_def)

text \<open>
  \<open>numpy.linalg.norm\<close>: one owner with a version, one owner whose version lookup fails,
  no owner, two owners.
\<close>

theorem distribution_package_source_witness:
  "resolve numpy_world project_state 8
     = (Inr (DistributionPackageSource ''numpy.linalg'' (Some ''norm'') ''numpy''
               (Some ''1.24.0'') DISTRIBUTION_PACKAGE), project_state)
   \<and> resolve (numpy_world\<lparr>version := Map.empty\<rparr>) project_state 8
     = (Inr (DistributionPackageSource ''numpy.linalg'' (Some ''norm'') ''numpy''
               None DISTRIBUTION_PACKAGE), project_state)
   \<and> resolve ex_world project_state 8
     = (Inr (Source ''numpy.linalg'' (Some ''norm'') UNKNOWN), project_state)
   \<and> resolve shared_name_world project_state 8
     = (Inr (Source ''numpy.linalg'' (Some ''norm'') UNKNOWN), project_state)"
proof -
  let ?w2 = "numpy_world\<lparr>version := Map.empty\<rparr>"
  have ma: "module_and_attribute project_state 8 = Some (linalg_module, Some ''norm'')"
    by (simp add: module_and_attribute_def project_state_def)
  have top: "\<not> fails_top_level_check linalg_module (Some ''norm'') 8"
    by (simp add: fails_top_level_check_def linalg_module_def)
  have n: "\<And>w. (if mod_name linalg_module = ''__main__''
           then resolve_module w project_state linalg_module
           else Inr (mod_name linalg_module)) = Inr ''numpy.linalg''"
    by (simp add: linalg_module_def)
  have d1: "get_source_type numpy_world project_state linalg_module = Inr DISTRIBUTION_PACKAGE"
    by code_simp
  have d2: "get_source_type ?w2 project_state linalg_module = Inr DISTRIBUTION_PACKAGE"
    by code_simp
  have d3: "get_source_type ex_world project_state linalg_module = Inr DISTRIBUTION_PACKAGE"
    by code_simp
  have d4: "get_source_type shared_name_world project_state linalg_module
              = Inr DISTRIBUTION_PACKAGE"
    by code_simp
  have o1: "owners numpy_world ''numpy.linalg'' = [''numpy'']"
    by code_simp
  have o2: "owners ?w2 ''numpy.linalg'' = [''numpy'']"
    by code_simp
  have o3: "owners ex_world ''numpy.linalg'' = []"
    by code_simp
  have o4: "owners shared_name_world ''numpy.linalg'' = [''numpy'', ''numpy-nightly'']"
    by code_simp
  have v1: "version numpy_world ''numpy'' = Some ''1.24.0''"
    by (simp add: numpy_world_def)
  have v2: "version ?w2 ''numpy'' = None"
    by simp
  from distribution_package_source [OF ma top n d1, of "''numpy''"] o1 v1
  have "resolve numpy_world project_state 8
     = (Inr (DistributionPackageSource ''numpy.linalg'' (Some ''norm'') ''numpy''
               (Some ''1.24.0'') DISTRIBUTION_PACKAGE), project_state)"
    by simp
  moreover from distribution_package_source [OF ma top n d2, of "''numpy''"] o2 v2
  have "resolve ?w2 project_state 8
     = (Inr (DistributionPackageSource ''numpy.linalg'' (Some ''norm'') ''numpy''
               None DISTRIBUTION_PACKAGE), project_state)"
    by simp
  moreover from distribution_package_source [OF ma top n d3, of "''numpy''"] o3
  have "resolve ex_world project_state 8
     = (Inr (Source ''numpy.linalg'' (Some ''norm'') UNKNOWN), project_state)"
    by simp
  moreover from distribution_package_source [OF ma top n d4, of "''numpy''"] o4
  have "resolve shared_name_world project_state 8
     = (Inr (Source ''numpy.linalg'' (Some ''norm'') UNKNOWN), project_state)"
    by simp
  ultimately show ?thesis by blast
qed

text \<open>
  The entry-point module of the installed tool is classified as a distribution package
  and no distribution owns its top-level name, yet \<open>resolve\<close> returns no descriptor: the
  entry-point module is re-derived from its file before it is classified, and the file is
  outside the source root.
\<close>

theorem entry_point_in_site_packages_not_resolved:
  "module_and_attribute tool_state 0 = Some (tool_main, None)
   \<and> get_source_type ex_world tool_state tool_main = Inr DISTRIBUTION_PACKAGE
   \<and> owners ex_world (mod_name tool_main) = []
   \<and> fst (resolve ex_world tool_state 0) = Inl (RuntimeError OutsideSourceRoot)"
proof -
  have "module_and_attribute tool_state 0 = Some (tool_main, None)"
    by (simp add: module_and_attribute_def tool_state_def)
  moreover have "get_source_type ex_world tool_state tool_main = Inr DISTRIBUTION_PACKAGE"
    by code_simp
  moreover have "owners ex_world (mod_name tool_main) = []"
    by code_simp
  moreover have "fst (resolve ex_world tool_state 0) = Inl (RuntimeError OutsideSourceRoot)"
    by code_simp
  ultimately show ?thesis by blast
qed

section \<open>Properties: the round trip\<close>

text \<open>
  C1, as the code has it. Let \<open>f\<close> be a class or function with a non-empty name that is
  the attribute of that name in its module, the module classified as user code, a
  repository without local changes active at the source root, the source root inside the
  repository root, and the path re-derived from the module's file a name under which
  \<open>sys.modules\<close> holds that module. Then \<open>resolve\<close> returns the code repository source of
  the re-derived module path and the name of \<open>f\<close>, and \<open>load\<close> of that source returns
  \<open>f\<close> itself, on every machine.
\<close>

theorem load_resolve_round_trip:
  assumes obj: "heap s f = Some (Definition d)" and name: "def_name d \<noteq> []"
    and mr: "sys_modules s (def_module d) = Some mr" and m: "heap s mr = Some (Module m)"
    and top: "mod_attrs m (def_name d) = Some f"
    and user: "get_source_type w s m = Inr USER"
    and ctx: "find_active_code_repository w s None = (Inr (Some c), s1)"
    and clean: "\<not> has_local_changes c"
    and src_root: "get_source_root w s = Inr r"
    and sub: "relative_to (PurePath r) (PurePath (root c)) = Inr subdir"
    and path: "resolve_module w s m = Inr mn"
    and registered: "sys_modules s mn = Some mr"
  shows "resolve w s f
           = (Inr (CodeRepositorySource (code_repository_id c) (current_commit c)
                     (as_posix subdir) mn (Some (def_name d))), s1)
         \<and> fst (load w s1
                (Inr (CodeRepositorySource (code_repository_id c) (current_commit c)
                        (as_posix subdir) mn (Some (def_name d))))) = Inr f"
proof -
  let ?src = "CodeRepositorySource (code_repository_id c) (current_commit c)
                (as_posix subdir) mn (Some (def_name d))"
  note fr = find_active_frame [OF ctx]
  have rm: "resolve_module w s1 m = Inr mn"
    using resolve_module_cong [of s1 s w m] fr path by simp
  have gr: "get_source_root w s1 = Inr r"
    using get_source_root_cong [of s1 s w] fr src_root by simp
  have t: "truthy (Some (def_name d))"
    using name by (simp add: truthy_def)
  have pre: "\<exists>n. (if mod_name m = ''__main__'' then resolve_module w s m else Inr (mod_name m))
               = Inr n"
    using path by simp
  have "resolve w s f = resolve_in w s f m (Some (def_name d))"
    using obj mr m by (simp add: resolve_def)
  also have "\<dots> = (Inr ?src, s1)"
    using pre t top user ctx clean rm gr sub
    by (auto simp: resolve_in_def)
  finally have res: "resolve w s f = (Inr ?src, s1)" .
  have "\<exists>ws. warn_about_potential_source_loading_issues w s1
        (code_repository_id c) (current_commit c) = (Inr ws, s1)"
    using find_active_again [OF ctx] gr
    by (simp add: warn_about_potential_source_loading_issues_def)
  then obtain ws where wr: "warn_about_potential_source_loading_issues w s1
        (code_repository_id c) (current_commit c) = (Inr ws, s1)"
    by blast
  have lm: "\<exists>s2. load_module w s1 mn (Some r) = (Inr mr, s2) \<and> heap s2 = heap s1"
    using registered fr
    by (auto simp: load_module_def prepend_python_path_def import_module_def)
  then obtain s2 where s2: "load_module w s1 mn (Some r) = (Inr mr, s2)" "heap s2 = heap s1"
    by blast
  have "load_object w s1 ?src (Some r) ws = (Inr f, ws, s2)"
    using s2 t m top fr by (simp add: load_object_def CodeRepositorySource_def)
  then have "fst (load w s1 (Inr ?src)) = Inr f"
    using wr gr by (simp add: load_def load_source_def CodeRepositorySource_def)
  with res show ?thesis by simp
qed

text \<open>The function \<open>f\<close> of \<open>helpers\<close> in the tracked project.\<close>

theorem load_resolve_round_trip_witness:
  "fst (resolve tracked_world project_state 2)
     = Inr (CodeRepositorySource ''r1'' ''c0ffee'' ''.'' ''helpers'' (Some ''f''))
   \<and> fst (load tracked_world (snd (resolve tracked_world project_state 2))
           (Inr (CodeRepositorySource ''r1'' ''c0ffee'' ''.'' ''helpers'' (Some ''f'')))) = Inr 2"
proof -
  let ?c = "\<lparr>code_repository_id = ''r1'', root = ''/proj'', current_commit = ''c0ffee'',
             is_dirty = False, has_local_changes = False\<rparr>"
  let ?d = "\<lparr>def_module = ''helpers'', def_name = ''f''\<rparr>"
  have obj: "heap project_state 2 = Some (Definition ?d)"
    by (simp add: project_state_def)
  have name: "def_name ?d \<noteq> []" by simp
  have mr: "sys_modules project_state (def_module ?d) = Some 1"
    by (simp add: project_state_def)
  have m: "heap project_state 1 = Some (Module helpers_module)"
    by (simp add: project_state_def)
  have top: "mod_attrs helpers_module (def_name ?d) = Some 2"
    by (simp add: helpers_module_def)
  have user: "get_source_type tracked_world project_state helpers_module = Inr USER"
    by code_simp
  have "fst (find_active_code_repository tracked_world project_state None) = Inr (Some ?c)"
    by code_simp
  then have ctx: "find_active_code_repository tracked_world project_state None
      = (Inr (Some ?c), snd (find_active_code_repository tracked_world project_state None))"
    by (metis prod.collapse)
  have clean: "\<not> has_local_changes ?c" by simp
  have src_root: "get_source_root tracked_world project_state = Inr ''/proj''"
    by code_simp
  have sub: "relative_to (PurePath ''/proj'') (PurePath (root ?c)) = Inr ([], [])"
    by code_simp
  have path: "resolve_module tracked_world project_state helpers_module = Inr ''helpers''"
    by code_simp
  have registered: "sys_modules project_state ''helpers'' = Some 1"
    by (simp add: project_state_def)
  have posix: "as_posix ([], []) = ''.''"
    by (simp add: as_posix_def)
  from load_resolve_round_trip
    [OF obj name mr m top user ctx clean src_root sub path registered] posix
  show ?thesis by simp
qed

text \<open>
  The function \<open>f\<close> of the script \<open>/proj/run.py\<close> (object 1) is a top-level attribute of
  the entry-point module, and the project is tracked and clean. \<open>resolve\<close> names the
  module by its re-derived path \<open>run\<close>, which \<open>sys.modules\<close> does not hold; \<open>load\<close>
  imports \<open>run\<close>, which runs the script again, and returns the function of the new
  module (object 3, of module \<open>run\<close>), not \<open>f\<close>.
\<close>

theorem entry_point_function_reloaded_as_new_object:
  "module_and_attribute script_state 1
     = Some (\<lparr>mod_name = ''__main__'', mod_file = Some ''/proj/run.py'',
               mod_attrs = [''f'' \<mapsto> 1]\<rparr>, Some ''f'')
   \<and> fst (resolve script_world script_state 1)
     = Inr (CodeRepositorySource ''r1'' ''c0ffee'' ''.'' ''run'' (Some ''f''))
   \<and> fst (load script_world (snd (resolve script_world script_state 1))
           (Inr (CodeRepositorySource ''r1'' ''c0ffee'' ''.'' ''run'' (Some ''f'')))) = Inr 3
   \<and> (case heap (snd (snd (load script_world (snd (resolve script_world script_state 1))
              (Inr (CodeRepositorySource ''r1'' ''c0ffee'' ''.'' ''run'' (Some ''f'')))))) 3 of
          Some (Definition d) \<Rightarrow> def_module d = ''run'' \<and> def_name d = ''f''
        | _ \<Rightarrow> False)"
proof -
  have "module_and_attribute script_state 1
     = Some (\<lparr>mod_name = ''__main__'', mod_file = Some ''/proj/run.py'',
               mod_attrs = [''f'' \<mapsto> 1]\<rparr>, Some ''f'')"
    by (simp add: module_and_attribute_def script_state_def)
  moreover have "fst (resolve script_world script_state 1)
     = Inr (CodeRepositorySource ''r1'' ''c0ffee'' ''.'' ''run'' (Some ''f''))"
    by code_simp
  moreover have "fst (load script_world (snd (resolve script_world script_state 1))
           (Inr (CodeRepositorySource ''r1'' ''c0ffee'' ''.'' ''run'' (Some ''f'')))) = Inr 3"
    by code_simp
  moreover have "(case heap (snd (snd (load script_world (snd (resolve script_world script_state 1))
              (Inr (CodeRepositorySource ''r1'' ''c0ffee'' ''.'' ''run'' (Some ''f'')))))) 3 of
          Some (Definition d) \<Rightarrow> def_module d = ''run'' \<and> def_name d = ''f''
        | _ \<Rightarrow> False)"
    by code_simp
  ultimately show ?thesis by blast
qed

section \<open>Properties: paths\<close>

text \<open>Splitting at the separator undoes joining with it.\<close>

lemma join_with_Cons:
  "join_with sep (x # xs) = x @ (if xs = [] then [] else sep @ join_with sep xs)"
  by (cases xs) auto

lemma split_on_plain: "d \<notin> set x \<Longrightarrow> split_on d x = [x]"
  by (induction x) auto

lemma split_on_append_sep: "d \<notin> set x \<Longrightarrow> split_on d (x @ d # r) = x # split_on d r"
  by (induction x) auto

lemma split_on_join:
  assumes "xs \<noteq> []" and "\<forall>x \<in> set xs. d \<notin> set x"
  shows "split_on d (join_with [d] xs) = xs"
  using assms
proof (induction xs)
  case Nil
  then show ?case by simp
next
  case (Cons x xs)
  show ?case
  proof (cases xs)
    case Nil
    with Cons.prems show ?thesis by (simp add: split_on_plain)
  next
    case (Cons y ys)
    with Cons.prems Cons.IH show ?thesis by (simp add: split_on_append_sep)
  qed
qed

lemma split_on_replicate: "split_on d (replicate n d @ s) = replicate n [] @ split_on d s"
  by (induction n) auto

lemma split_on_no_sep: "x \<in> set (split_on d s) \<Longrightarrow> d \<notin> set x"
  by (induction s arbitrary: x) (auto split: if_splits list.splits)

text \<open>
  \<open>normpath\<close> of an absolute path is one or two slashes followed by plain components
  joined by slashes, and such a path is a fixed point of \<open>normpath\<close>; so \<open>abspath\<close>
  leaves its own results alone when the working directory is absolute.
\<close>

lemma norm_step_plain:
  assumes "0 < init" and "plain_components acc" and "CHR ''/'' \<notin> set c"
  shows "plain_components (norm_step init acc c)"
  using assms
  by (auto simp: norm_step_def plain_components_def dest: in_set_butlastD)

lemma foldl_norm_step_plain:
  assumes "0 < init" and "plain_components acc" and "\<forall>c \<in> set cs. CHR ''/'' \<notin> set c"
  shows "plain_components (foldl (norm_step init) acc cs)"
  using assms
proof (induction cs arbitrary: acc)
  case (Cons c cs)
  then show ?case using norm_step_plain [of init acc c] by simp
qed simp

lemma foldl_norm_step_id:
  assumes "plain_components cs"
  shows "foldl (norm_step init) acc cs = acc @ cs"
  using assms
  by (induction cs arbitrary: acc) (auto simp: norm_step_def plain_components_def)

lemma foldl_norm_step_skip:
  "foldl (norm_step init) acc (replicate n [] @ cs) = foldl (norm_step init) acc cs"
  by (induction n) (auto simp: norm_step_def)

lemma join_plain_head:
  assumes "plain_components cs"
  shows "join_with ''/'' cs = [] \<or> (\<exists>a r. join_with ''/'' cs = a # r \<and> a \<noteq> CHR ''/'')"
proof (cases cs)
  case Nil
  then show ?thesis by simp
next
  case (Cons x xs)
  with assms obtain a x' where x: "x = a # x'" "a \<noteq> CHR ''/''"
    by (cases x) (auto simp: plain_components_def)
  with Cons show ?thesis by (simp add: join_with_Cons)
qed

lemma split_on_join_plain:
  assumes "plain_components cs"
  shows "split_on CHR ''/'' (join_with ''/'' cs) = (if cs = [] then [[]] else cs)"
  using assms split_on_join [of cs "CHR ''/''"] by (auto simp: plain_components_def)

lemma normpath_absolute_form:
  assumes "startswith p ''/''"
  shows "\<exists>init cs. (init = 1 \<or> init = 2) \<and> plain_components cs
            \<and> normpath p = replicate init CHR ''/'' @ join_with ''/'' cs"
proof -
  let ?init = "if startswith p ''//'' \<and> \<not> startswith p ''///'' then 2 else (1::nat)"
  let ?cs = "foldl (norm_step ?init) [] (split_on CHR ''/'' p)"
  have ne: "p \<noteq> []" using assms by (auto simp: startswith_def)
  have "plain_components ?cs"
    by (rule foldl_norm_step_plain) (auto simp: plain_components_def dest: split_on_no_sep)
  moreover have "normpath p = replicate ?init CHR ''/'' @ join_with ''/'' ?cs"
    using assms ne by (simp add: normpath_def Let_def)
  ultimately show ?thesis by (intro exI [of _ ?init] exI [of _ ?cs]) simp
qed

lemma normpath_fixed:
  assumes i: "init = 1 \<or> init = 2" and pl: "plain_components cs"
  shows "normpath (replicate init CHR ''/'' @ join_with ''/'' cs)
           = replicate init CHR ''/'' @ join_with ''/'' cs"
proof -
  let ?j = "join_with ''/'' cs"
  let ?q = "replicate init CHR ''/'' @ ?j"
  have ne: "?q \<noteq> []" using i by auto
  have s1: "startswith ?q ''/''" using i by (auto simp: startswith_def)
  have s2: "(startswith ?q ''//'' \<and> \<not> startswith ?q ''///'') = (init = 2)"
    using i join_plain_head [OF pl]
    by (auto simp: startswith_def numeral_2_eq_2)
  have sp: "split_on CHR ''/'' ?q = replicate init [] @ (if cs = [] then [[]] else cs)"
    by (simp add: split_on_replicate split_on_join_plain [OF pl])
  have f: "foldl (norm_step init) [] (split_on CHR ''/'' ?q) = cs"
    unfolding sp foldl_norm_step_skip
    using foldl_norm_step_id [OF pl, of init "[]"] by (simp add: norm_step_def)
  have init: "(if startswith ?q ''/''
               then (if startswith ?q ''//'' \<and> \<not> startswith ?q ''///'' then 2 else 1)
               else (0::nat)) = init"
    using s1 s2 i by auto
  show ?thesis
    unfolding normpath_def Let_def init f using ne by simp
qed

lemma normpath_idem:
  assumes "startswith p ''/''"
  shows "normpath (normpath p) = normpath p \<and> startswith (normpath p) ''/''"
proof -
  from normpath_absolute_form [OF assms] obtain init cs
    where i: "init = 1 \<or> init = 2" and pl: "plain_components cs"
      and n: "normpath p = replicate init CHR ''/'' @ join_with ''/'' cs"
    by blast
  have "startswith (normpath p) ''/''"
    unfolding n using i by (auto simp: startswith_def)
  with normpath_fixed [OF i pl] n show ?thesis by simp
qed

lemma abspath_idem:
  assumes "isabs (cwd w)"
  shows "abspath w (abspath w p) = abspath w p"
proof -
  let ?x = "if isabs p then p else path_join (cwd w) p"
  have "startswith ?x ''/''"
    using assms by (cases "cwd w") (auto simp: isabs_def path_join_def startswith_def)
  from normpath_idem [OF this] show ?thesis
    by (simp add: abspath_def abspath_in_def isabs_def)
qed

text \<open>
  The relative path from a directory to a file: it starts with \<open>..\<close> when the directory
  is not an ancestor of the file (or the file itself), and is the rest of the file's
  components otherwise.
\<close>

lemma commonprefix_length: "length (commonprefix xs ys) \<le> length xs"
  by (induction xs ys rule: commonprefix.induct) auto

lemma commonprefix_full:
  "length (commonprefix xs ys) = length xs \<Longrightarrow> take (length xs) ys = xs"
proof (induction xs ys rule: commonprefix.induct)
  case (1 x xs y ys)
  then show ?case using commonprefix_length [of xs ys] by (auto split: if_splits)
qed auto

lemma commonprefix_append: "commonprefix xs (xs @ zs) = xs"
  by (induction xs) auto

lemma startswith_join:
  "startswith (join_with ''/'' (x # xs)) ''..'' = startswith x ''..''"
proof (cases x)
  case Nil
  then show ?thesis by (auto simp: join_with_Cons startswith_def)
next
  case (Cons a x')
  then show ?thesis by (cases x') (auto simp: join_with_Cons startswith_def)
qed

lemma relpath_outside:
  assumes "take (length (components start)) (components path) \<noteq> components start"
  shows "startswith (relpath path start) ''..''"
proof -
  let ?R = "components start" and ?F = "components path"
  let ?i = "length (commonprefix ?R ?F)"
  have "?i < length ?R"
    using commonprefix_length [of ?R ?F] commonprefix_full [of ?R ?F] assms by force
  then obtain k where k: "length ?R - ?i = Suc k"
    by (metis Suc_diff_Suc)
  let ?rel = "replicate (length ?R - ?i) ''..'' @ drop ?i ?F"
  have rl: "?rel = ''..'' # (replicate k ''..'' @ drop ?i ?F)"
    unfolding k by simp
  have "relpath path start = (if ?rel = [] then ''.'' else join_with ''/'' ?rel)"
    by (simp only: relpath_def Let_def)
  also have "\<dots> = join_with ''/'' (''..'' # (replicate k ''..'' @ drop ?i ?F))"
    unfolding rl by simp
  finally show ?thesis
    by (simp only: startswith_join) (simp add: startswith_def)
qed

lemma relpath_inside:
  assumes "components path = components start @ rel"
  shows "relpath path start = (if rel = [] then ''.'' else join_with ''/'' rel)"
  using assms by (simp add: relpath_def Let_def commonprefix_append)

section \<open>Properties: re-deriving a module path\<close>

text \<open>
  C9, as the code has it, with an absolute working directory. A module without a file
  resolves to its own name, except the entry-point module, for which the derivation
  fails. For a module with a file the error of \<open>get_source_root\<close> comes back when the
  source root cannot be determined. Otherwise the file and the source root are made
  absolute. When the components of the source root are not the leading components of the
  file, the file is outside the source root and the derivation fails. When they are, and
  the first component after them does not begin with two dots, the derivation fails if
  the extension of the relative path is not \<open>.py\<close>, and otherwise returns the relative
  path without the extension, its separators replaced by dots.
\<close>

theorem module_path_rederivation:
  assumes "isabs (cwd w)"
  shows "(\<not> truthy (mod_file m) \<longrightarrow>
            resolve_module w s m
              = (if mod_name m = ''__main__'' then Inl (RuntimeError NotLoadedFromFile)
                 else Inr (mod_name m)))
         \<and> (truthy (mod_file m) \<and> get_source_root w s = Inl e \<longrightarrow>
              resolve_module w s m = Inl e)
         \<and> (truthy (mod_file m) \<and> get_source_root w s = Inr r
              \<and> take (length (components (abspath w r)))
                   (components (abspath w (the (mod_file m)))) \<noteq> components (abspath w r)
             \<longrightarrow> resolve_module w s m = Inl (RuntimeError OutsideSourceRoot))
         \<and> (truthy (mod_file m) \<and> get_source_root w s = Inr r
              \<and> components (abspath w (the (mod_file m))) = components (abspath w r) @ rel
              \<and> (rel = [] \<or> \<not> startswith (hd rel) ''..'')
             \<longrightarrow> resolve_module w s m
                   = (let relative = (if rel = [] then ''.'' else join_with ''/'' rel)
                      in if snd (splitext relative) \<noteq> ''.py''
                         then Inl (RuntimeError NotPythonFile)
                         else Inr (replace_char CHR ''/'' CHR ''.'' (fst (splitext relative)))))"
proof (intro conjI impI)
  assume "\<not> truthy (mod_file m)"
  then show "resolve_module w s m
              = (if mod_name m = ''__main__'' then Inl (RuntimeError NotLoadedFromFile)
                 else Inr (mod_name m))"
    by (simp add: resolve_module_def)
next
  assume "truthy (mod_file m) \<and> get_source_root w s = Inl e"
  then show "resolve_module w s m = Inl e"
    by (simp add: resolve_module_def Let_def)
next
  assume a: "truthy (mod_file m) \<and> get_source_root w s = Inr r
              \<and> take (length (components (abspath w r)))
                   (components (abspath w (the (mod_file m)))) \<noteq> components (abspath w r)"
  then have "startswith (relpath (abspath w (the (mod_file m))) (abspath w r)) ''..''"
    by (intro relpath_outside) simp
  with a show "resolve_module w s m = Inl (RuntimeError OutsideSourceRoot)"
    by (simp add: resolve_module_def Let_def abspath_idem [OF assms])
next
  assume a: "truthy (mod_file m) \<and> get_source_root w s = Inr r
              \<and> components (abspath w (the (mod_file m))) = components (abspath w r) @ rel
              \<and> (rel = [] \<or> \<not> startswith (hd rel) ''..'')"
  let ?relative = "if rel = [] then ''.'' else join_with ''/'' rel"
  from a have rp: "relpath (abspath w (the (mod_file m))) (abspath w r) = ?relative"
    by (intro relpath_inside) simp
  have ns: "\<not> startswith ?relative ''..''"
  proof (cases rel)
    case Nil
    then show ?thesis by (simp add: startswith_def)
  next
    case (Cons x xs)
    with a show ?thesis by (simp add: startswith_join)
  qed
  from a rp ns
  show "resolve_module w s m
          = (let relative = ?relative
             in if snd (splitext relative) \<noteq> ''.py''
                then Inl (RuntimeError NotPythonFile)
                else Inr (replace_char CHR ''/'' CHR ''.'' (fst (splitext relative))))"
    by (simp add: resolve_module_def Let_def abspath_idem [OF assms] split: prod.splits)
qed

text \<open>
  With the source root \<open>/proj\<close>: \<open>/proj/pkg/sub/mod.py\<close> is \<open>pkg.sub.mod\<close>; the compiled
  module \<open>/proj/fast.so\<close> and the installed module in \<open>/venv\<close> fail; the entry-point
  module without a file fails and the module \<open>sys\<close> without a file keeps its name; in an
  interactive session the error of the source root comes back.
\<close>

theorem module_path_rederivation_witness:
  "resolve_module ex_world script_state nested_module = Inr ''pkg.sub.mod''
   \<and> resolve_module ex_world script_state fast_module = Inl (RuntimeError NotPythonFile)
   \<and> resolve_module ex_world script_state numpy_module = Inl (RuntimeError OutsideSourceRoot)
   \<and> resolve_module ex_world interactive_state
         \<lparr>mod_name = ''__main__'', mod_file = None, mod_attrs = Map.empty\<rparr>
       = Inl (RuntimeError NotLoadedFromFile)
   \<and> resolve_module ex_world interactive_state
         \<lparr>mod_name = ''sys'', mod_file = None, mod_attrs = Map.empty\<rparr> = Inr ''sys''
   \<and> resolve_module ex_world interactive_state nested_module
       = Inl (RuntimeError MainModuleHasNoFile)"
proof -
  let ?main = "\<lparr>mod_name = ''__main__'', mod_file = None, mod_attrs = Map.empty\<rparr>"
  let ?sys = "\<lparr>mod_name = ''sys'', mod_file = None, mod_attrs = Map.empty\<rparr>"
  have cwd: "isabs (cwd ex_world)"
    by code_simp
  have src_root: "get_source_root ex_world script_state = Inr ''/proj''"
    by code_simp
  have R: "components (abspath ex_world ''/proj'') = [''proj'']"
    by code_simp
  have n1: "truthy (mod_file nested_module)"
    and n2: "components (abspath ex_world (the (mod_file nested_module)))
               = [''proj''] @ [''pkg'', ''sub'', ''mod.py'']"
    and n3: "\<not> startswith (hd [''pkg'', ''sub'', ''mod.py'']) ''..''"
    and n4: "splitext (join_with ''/'' [''pkg'', ''sub'', ''mod.py'']) = (''pkg/sub/mod'', ''.py'')"
    and n5: "replace_char CHR ''/'' CHR ''.'' ''pkg/sub/mod'' = ''pkg.sub.mod''"
    by code_simp+
  have f1: "truthy (mod_file fast_module)"
    and f2: "components (abspath ex_world (the (mod_file fast_module))) = [''proj''] @ [''fast.so'']"
    and f3: "\<not> startswith (hd [''fast.so'']) ''..''"
    and f4: "splitext (join_with ''/'' [''fast.so'']) = (''fast'', ''.so'')"
    by code_simp+
  have o1: "truthy (mod_file numpy_module)"
    and o2: "take (length [''proj'']) (components (abspath ex_world (the (mod_file numpy_module))))
               \<noteq> [''proj'']"
    by code_simp+
  have m1: "\<not> truthy (mod_file ?main)" and m2: "\<not> truthy (mod_file ?sys)"
    by (simp_all add: truthy_def)
  have no_root: "get_source_root ex_world interactive_state
                   = Inl (RuntimeError MainModuleHasNoFile)"
    by code_simp
  note t = module_path_rederivation [OF cwd]
  have "resolve_module ex_world script_state nested_module = Inr ''pkg.sub.mod''"
    using t [where m = nested_module and s = script_state and r = "''/proj''"
               and rel = "[''pkg'', ''sub'', ''mod.py'']"]
      src_root R n1 n2 n3 n4 n5
    by simp
  moreover have "resolve_module ex_world script_state fast_module
                   = Inl (RuntimeError NotPythonFile)"
    using t [where m = fast_module and s = script_state and r = "''/proj''"
               and rel = "[''fast.so'']"]
      src_root R f1 f2 f3 f4
    by simp
  moreover have "resolve_module ex_world script_state numpy_module
                   = Inl (RuntimeError OutsideSourceRoot)"
    using t [where m = numpy_module and s = script_state and r = "''/proj''"]
      src_root R o1 o2
    by simp
  moreover have "resolve_module ex_world interactive_state ?main
                   = Inl (RuntimeError NotLoadedFromFile)"
    using t [where m = ?main and s = interactive_state] m1 by simp
  moreover have "resolve_module ex_world interactive_state ?sys = Inr ''sys''"
    using t [where m = ?sys and s = interactive_state] m2 by simp
  moreover have "resolve_module ex_world interactive_state nested_module
                   = Inl (RuntimeError MainModuleHasNoFile)"
    using t [where m = nested_module and s = interactive_state
               and e = "RuntimeError MainModuleHasNoFile"] n1 no_root
    by simp
  ultimately show ?thesis by blast
qed

text \<open>
  In an interactive session without override and repository the derivation fails for a
  module with a \<open>.py\<close> file, whatever directory the file is in: there is no source root to
  relate it to.
\<close>

theorem module_path_needs_source_root:
  "truthy (mod_file helpers_module)
   \<and> get_source_root ex_world interactive_state = Inl (RuntimeError MainModuleHasNoFile)
   \<and> resolve_module ex_world interactive_state helpers_module
       = Inl (RuntimeError MainModuleHasNoFile)"
proof -
  have "truthy (mod_file helpers_module)"
    by code_simp
  moreover have "get_source_root ex_world interactive_state
                   = Inl (RuntimeError MainModuleHasNoFile)"
    by code_simp
  moreover have "resolve_module ex_world interactive_state helpers_module
       = Inl (RuntimeError MainModuleHasNoFile)"
    by code_simp
  ultimately show ?thesis by blast
qed

text \<open>
  The test for a file outside the source root looks at the first two characters of the
  relative path, not at its first component: a file inside the source root whose first
  relative component begins with two dots is rejected as being outside, whatever its
  extension. So \<open>/proj/..cfg/mod.py\<close>, which lies inside the source root \<open>/proj\<close> and
  has the extension \<open>.py\<close>, is rejected.
\<close>

lemma two_dots_component_rejected:
  assumes "isabs (cwd w)" and "truthy (mod_file m)" and "get_source_root w s = Inr r"
    and "components (abspath w (the (mod_file m))) = components (abspath w r) @ x # rel"
    and "startswith x ''..''"
  shows "resolve_module w s m = Inl (RuntimeError OutsideSourceRoot)"
proof -
  have "relpath (abspath w (the (mod_file m))) (abspath w r) = join_with ''/'' (x # rel)"
    using relpath_inside [OF assms(4)] by simp
  then have "startswith (relpath (abspath w (the (mod_file m))) (abspath w r)) ''..''"
    using assms(5) by (simp only: startswith_join)
  with assms(2,3) show ?thesis
    by (simp add: resolve_module_def Let_def abspath_idem [OF assms(1)])
qed

lemma dotted_directory_rejected:
  "components (abspath ex_world (the (mod_file dotted_directory_module)))
     = components (abspath ex_world ''/proj'') @ [''..cfg'', ''mod.py'']
   \<and> splitext (join_with ''/'' [''..cfg'', ''mod.py'']) = (''..cfg/mod'', ''.py'')
   \<and> resolve_module ex_world script_state dotted_directory_module
       = Inl (RuntimeError OutsideSourceRoot)"
proof -
  have "components (abspath ex_world (the (mod_file dotted_directory_module)))
     = components (abspath ex_world ''/proj'') @ [''..cfg'', ''mod.py'']"
    by code_simp
  moreover have "splitext (join_with ''/'' [''..cfg'', ''mod.py'']) = (''..cfg/mod'', ''.py'')"
    by code_simp
  moreover have "resolve_module ex_world script_state dotted_directory_module
       = Inl (RuntimeError OutsideSourceRoot)"
    by code_simp
  ultimately show ?thesis by blast
qed

end
